theory Spec2Isabelle
  imports Main "HOL-Library.List_Lexorder" "HOL-Library.Multiset"
begin

section \<open>Python values\<close>

text \<open>
  A Python \<^verbatim>\<open>str\<close> is a sequence of Unicode code points, so it is modelled as a list of
  naturals; \<open>str\<close> turns an ASCII literal into one. Python compares strings
  lexicographically by code point, which is the order \<open><\<close> of lists of naturals.
\<close>

type_synonym pystr = "nat list"

definition str :: "string \<Rightarrow> pystr" where
  "str s = map of_char s"

text \<open>
  The values \<^verbatim>\<open>json.load\<close>, \<^verbatim>\<open>json.loads\<close> and \<^verbatim>\<open>request.json()\<close> produce. A dict keeps its
  insertion order, so it is an association list (a dict has each key once; on a list that
  repeats a key the operations below read and write its first entry). A float is kept as
  its \<^verbatim>\<open>repr\<close> (which identifies the float): the program only tests floats for truth and
  prints them.
\<close>

datatype json =
    JNull
  | JBool bool
  | JInt int
  | JFloat pystr
  | JStr pystr
  | JArr "json list"
  | JObj "(pystr \<times> json) list"

text \<open>
  What a call can raise. \<open>HTTPException\<close> is FastAPI's, with its status code and detail;
  \<open>ResponseValidationError\<close> is what FastAPI raises when a returned value does not fit the
  route's \<^verbatim>\<open>response_model\<close>.
  \<open>Unmodelled\<close> is not a Python exception: it marks the one place where the program's
  behaviour depends on the numeric value of a float or on the ordering of lists (a sort
  key of such a type), which this development does not define.
\<close>

datatype fault =
    HTTPException int pystr
  | KeyError json
  | IndexError pystr
  | JSONDecodeError pystr
  | TypeError
  | AttributeError
  | UnicodeDecodeError
  | RequestException
  | ResponseValidationError
  | Unmodelled

text \<open>
  The status FastAPI answers with: 200 with the returned value as body, the status of a
  raised \<open>HTTPException\<close>, and 500 for any other exception.
\<close>

fun http_status :: "fault + json \<Rightarrow> int" where
  "http_status (Inr body) = 200"
| "http_status (Inl (HTTPException status_code detail)) = status_code"
| "http_status (Inl e) = 500"

subsection \<open>Built-in operations\<close>

text \<open>\<^verbatim>\<open>bool(v)\<close>: the truth value of an object, as \<^verbatim>\<open>if v:\<close> and \<^verbatim>\<open>not v\<close> test it.\<close>

fun truthy :: "json \<Rightarrow> bool" where
  "truthy JNull = False"
| "truthy (JBool b) = b"
| "truthy (JInt i) = (i \<noteq> 0)"
| "truthy (JFloat r) = (r \<noteq> str ''0.0'' \<and> r \<noteq> str ''-0.0'')"
| "truthy (JStr s) = (s \<noteq> [])"
| "truthy (JArr xs) = (xs \<noteq> [])"
| "truthy (JObj d) = (d \<noteq> [])"

text \<open>\<^verbatim>\<open>isinstance(v, dict)\<close>.\<close>

fun is_object :: "json \<Rightarrow> bool" where
  "is_object (JObj d) = True"
| "is_object v = False"

text \<open>
  \<^verbatim>\<open>isinstance(v, int)\<close>, with the integer value: \<^verbatim>\<open>bool\<close> is a subclass of \<^verbatim>\<open>int\<close> in Python,
  so \<^verbatim>\<open>True\<close> and \<^verbatim>\<open>False\<close> are instances of \<^verbatim>\<open>int\<close> with the values 1 and 0.
\<close>

fun int_value :: "json \<Rightarrow> int option" where
  "int_value (JInt i) = Some i"
| "int_value (JBool b) = Some (if b then 1 else 0)"
| "int_value v = None"

text \<open>Decimal digits, as \<^verbatim>\<open>str(n)\<close> prints an \<^verbatim>\<open>int\<close>.\<close>

fun dec_nat :: "nat \<Rightarrow> pystr" where
  "dec_nat n = (if n < 10 then [48 + n] else dec_nat (n div 10) @ [48 + n mod 10])"

declare dec_nat.simps [simp del]

definition dec_int :: "int \<Rightarrow> pystr" where
  "dec_int i = (if i < 0 then 45 # dec_nat (nat (- i)) else dec_nat (nat i))"

text \<open>
  \<^verbatim>\<open>str(v)\<close>, which is also what an f-string field \<^verbatim>\<open>{v}\<close> prints. The \<^verbatim>\<open>repr\<close> of a string, a
  list or a dict depends on CPython's table of printable characters, so it is a
  parameter \<open>repr\<close> of the model; \<open>py_repr_of\<close> is \<^verbatim>\<open>repr(v)\<close>.
\<close>

fun py_str :: "(json \<Rightarrow> pystr) \<Rightarrow> json \<Rightarrow> pystr" where
  "py_str repr JNull = str ''None''"
| "py_str repr (JBool b) = (if b then str ''True'' else str ''False'')"
| "py_str repr (JInt i) = dec_int i"
| "py_str repr (JFloat r) = r"
| "py_str repr (JStr s) = s"
| "py_str repr (JArr xs) = repr (JArr xs)"
| "py_str repr (JObj d) = repr (JObj d)"

fun py_repr_of :: "(json \<Rightarrow> pystr) \<Rightarrow> json \<Rightarrow> pystr" where
  "py_repr_of repr (JStr s) = repr (JStr s)"
| "py_repr_of repr v = py_str repr v"

text \<open>
  \<^verbatim>\<open>str.strip()\<close> removes leading and trailing whitespace; \<open>is_space\<close> lists the code points
  CPython counts as whitespace.
\<close>

definition is_space :: "nat \<Rightarrow> bool" where
  "is_space c \<longleftrightarrow>
     (9 \<le> c \<and> c \<le> 13) \<or> (28 \<le> c \<and> c \<le> 32) \<or> c = 133 \<or> c = 160 \<or> c = 5760 \<or>
     (8192 \<le> c \<and> c \<le> 8202) \<or> c = 8232 \<or> c = 8233 \<or> c = 8239 \<or> c = 8287 \<or> c = 12288"

definition py_strip :: "pystr \<Rightarrow> pystr" where
  "py_strip s = rev (dropWhile is_space (rev (dropWhile is_space s)))"

text \<open>\<^verbatim>\<open>d.get(key, default)\<close>: only a dict has the method.\<close>

fun py_get :: "json \<Rightarrow> pystr \<Rightarrow> json \<Rightarrow> fault + json" where
  "py_get (JObj d) key dflt = Inr (case map_of d key of None \<Rightarrow> dflt | Some v \<Rightarrow> v)"
| "py_get v key dflt = Inl AttributeError"

text \<open>\<^verbatim>\<open>len(v)\<close> and iteration \<^verbatim>\<open>for x in v\<close>; a dict iterates over its keys, a string over its
  characters.\<close>

fun py_len :: "json \<Rightarrow> fault + nat" where
  "py_len (JArr xs) = Inr (length xs)"
| "py_len (JStr s) = Inr (length s)"
| "py_len (JObj d) = Inr (length d)"
| "py_len v = Inl TypeError"

fun py_iter :: "json \<Rightarrow> fault + json list" where
  "py_iter (JArr xs) = Inr xs"
| "py_iter (JStr s) = Inr (map (\<lambda>c. JStr [c]) s)"
| "py_iter (JObj d) = Inr (map (\<lambda>kv. JStr (fst kv)) d)"
| "py_iter v = Inl TypeError"

text \<open>
  Subscription \<^verbatim>\<open>v[key]\<close>. A sequence index may be negative (counted from the end) and
  raises \<open>IndexError\<close> out of range; a dict from JSON has string keys only, so every other
  hashable key is missing.
\<close>

definition seq_index :: "'a list \<Rightarrow> int \<Rightarrow> 'a option" where
  "seq_index xs i =
     (if 0 \<le> i \<and> i < int (length xs) then Some (xs ! nat i)
      else if i < 0 \<and> - int (length xs) \<le> i then Some (xs ! nat (int (length xs) + i))
      else None)"

fun py_getitem :: "json \<Rightarrow> json \<Rightarrow> fault + json" where
  "py_getitem (JObj d) (JStr k) = (case map_of d k of None \<Rightarrow> Inl (KeyError (JStr k)) | Some v \<Rightarrow> Inr v)"
| "py_getitem (JObj d) (JArr k) = Inl TypeError"
| "py_getitem (JObj d) (JObj k) = Inl TypeError"
| "py_getitem (JObj d) k = Inl (KeyError k)"
| "py_getitem (JArr xs) k =
     (case int_value k of
        None \<Rightarrow> Inl TypeError
      | Some i \<Rightarrow> (case seq_index xs i of
                    None \<Rightarrow> Inl (IndexError (str ''list index out of range''))
                  | Some v \<Rightarrow> Inr v))"
| "py_getitem (JStr s) k =
     (case int_value k of
        None \<Rightarrow> Inl TypeError
      | Some i \<Rightarrow> (case seq_index s i of
                    None \<Rightarrow> Inl (IndexError (str ''string index out of range''))
                  | Some c \<Rightarrow> Inr (JStr [c])))"
| "py_getitem v k = Inl TypeError"

text \<open>A chain of subscriptions \<^verbatim>\<open>v[k1][k2]...\<close>, left to right.\<close>

fun py_path :: "json \<Rightarrow> json list \<Rightarrow> fault + json" where
  "py_path v [] = Inr v"
| "py_path v (k # ks) = (case py_getitem v k of Inl e \<Rightarrow> Inl e | Inr u \<Rightarrow> py_path u ks)"

text \<open>
  \<^verbatim>\<open>key in v\<close> for a string key: a key of a dict, an element of a list, a substring of a
  string.
\<close>

fun is_substring :: "pystr \<Rightarrow> pystr \<Rightarrow> bool" where
  "is_substring k [] = (k = [])"
| "is_substring k (c # s) = (take (length k) (c # s) = k \<or> is_substring k s)"

fun py_contains :: "json \<Rightarrow> pystr \<Rightarrow> fault + bool" where
  "py_contains (JObj d) k = Inr (k \<in> set (map fst d))"
| "py_contains (JArr xs) k = Inr (JStr k \<in> set xs)"
| "py_contains (JStr s) k = Inr (is_substring k s)"
| "py_contains v k = Inl TypeError"

text \<open>\<^verbatim>\<open>d[key] = value\<close> on a dict: an existing key keeps its position, a new one goes last.\<close>

fun dict_set :: "(pystr \<times> json) list \<Rightarrow> pystr \<Rightarrow> json \<Rightarrow> (pystr \<times> json) list" where
  "dict_set [] key value = [(key, value)]"
| "dict_set ((k, v) # d) key value =
     (if k = key then (k, value) # d else (k, v) # dict_set d key value)"

fun py_setitem :: "json \<Rightarrow> pystr \<Rightarrow> json \<Rightarrow> fault + json" where
  "py_setitem (JObj d) key value = Inr (JObj (dict_set d key value))"
| "py_setitem v key value = Inl TypeError"

text \<open>
  \<^verbatim>\<open>a < b\<close>, as \<^verbatim>\<open>list.sort\<close> applies it to two sort keys. Strings compare by code point,
  \<^verbatim>\<open>int\<close> and \<^verbatim>\<open>bool\<close> by value; \<^verbatim>\<open>None\<close>, a dict, and a string against anything else raise
  \<open>TypeError\<close>.
\<close>

fun is_float :: "json \<Rightarrow> bool" where
  "is_float (JFloat r) = True"
| "is_float v = False"

fun py_lt :: "json \<Rightarrow> json \<Rightarrow> fault + bool" where
  "py_lt (JStr a) (JStr b) = Inr (a < b)"
| "py_lt (JArr a) (JArr b) = Inl Unmodelled"
| "py_lt a b =
     (case (int_value a, int_value b) of
        (Some i, Some j) \<Rightarrow> Inr (i < j)
      | (Some i, None) \<Rightarrow> if is_float b then Inl Unmodelled else Inl TypeError
      | (None, Some j) \<Rightarrow> if is_float a then Inl Unmodelled else Inl TypeError
      | (None, None) \<Rightarrow> if is_float a \<and> is_float b then Inl Unmodelled else Inl TypeError)"

section \<open>The world outside the process\<close>

text \<open>
  The file \<^verbatim>\<open>tests.json\<close>: missing; present but not readable as JSON (the read raises
  \<^verbatim>\<open>IOError\<close> or \<^verbatim>\<open>JSONDecodeError\<close>); present but not UTF-8 (the read raises
  \<^verbatim>\<open>UnicodeDecodeError\<close>); or holding a JSON value.
\<close>

datatype file_state = Missing | Unreadable | BadEncoding | Holds json

text \<open>
  What the operating system does with one attempt to rewrite the file: the write goes
  through, or it raises \<^verbatim>\<open>IOError\<close> with a message and leaves the file in some state.
\<close>

datatype write_outcome = Written | WriteFails pystr file_state

text \<open>An HTTP response of the provider as \<^verbatim>\<open>requests\<close> presents it; \<open>body_json\<close> is what
  \<^verbatim>\<open>response.json()\<close> returns, or the message of the error it raises.\<close>

record response =
  status_code :: int
  text_of :: pystr
  body_json :: "pystr + json"

datatype net_outcome = NetFails | Responds response

text \<open>
  The state the handlers read and change: the file named by \<^verbatim>\<open>DB_FILE\<close>, the lines printed
  (each \<^verbatim>\<open>print\<close> call with its arguments), and the request bodies posted to the provider.
\<close>

record world =
  DB_FILE :: file_state
  stdout :: "json list list"
  posted :: "json list"

text \<open>
  What the module is configured and linked with: the constant \<^verbatim>\<open>API_KEY\<close>, the provider
  behind \<^verbatim>\<open>requests.post\<close>, the parser \<^verbatim>\<open>json.loads\<close> (its value, or the message of its
  \<^verbatim>\<open>JSONDecodeError\<close>), \<^verbatim>\<open>repr\<close>, and what the installed pydantic makes of a dict that has
  all fields of \<^verbatim>\<open>Test\<close> but not all of them with the declared type (the record it coerces
  the dict to, or \<open>None\<close> when it rejects it: this differs between versions of pydantic).
\<close>

record env =
  API_KEY :: pystr
  requests_post :: "json \<Rightarrow> net_outcome"
  json_loads :: "pystr \<Rightarrow> pystr + json"
  py_repr :: "json \<Rightarrow> pystr"
  pydantic_coerce :: "json \<Rightarrow> json option"

section \<open>Database helper functions\<close>

definition load_tests_from_db :: "world \<Rightarrow> fault + json" where
  "load_tests_from_db w =
     (case DB_FILE w of
        Missing \<Rightarrow> Inr (JArr [])
      | Unreadable \<Rightarrow> Inr (JArr [])
      | BadEncoding \<Rightarrow> Inl UnicodeDecodeError
      | Holds tests \<Rightarrow> Inr tests)"

text \<open>The function returns \<^verbatim>\<open>None\<close> on both paths; the failure is printed, not raised.\<close>

definition save_tests_to_db :: "write_outcome \<Rightarrow> json \<Rightarrow> world \<Rightarrow> json \<times> world" where
  "save_tests_to_db io tests w =
     (case io of
        Written \<Rightarrow> (JNull, w\<lparr>DB_FILE := Holds tests\<rparr>)
      | WriteFails e left \<Rightarrow>
          (JNull, w\<lparr>DB_FILE := left,
                    stdout := stdout w @ [[JStr (str ''Error saving to DB: '' @ e)]]\<rparr>))"

section \<open>Gemini API helper function\<close>

definition block_reason :: "json \<Rightarrow> fault + json option" where
  "block_reason result =
     (case py_contains result (str ''promptFeedback'') of
        Inl e \<Rightarrow> Inl e
      | Inr False \<Rightarrow> Inr None
      | Inr True \<Rightarrow>
          (case py_getitem result (JStr (str ''promptFeedback'')) of
             Inl e \<Rightarrow> Inl e
           | Inr feedback \<Rightarrow>
               (case py_contains feedback (str ''blockReason'') of
                  Inl e \<Rightarrow> Inl e
                | Inr False \<Rightarrow> Inr None
                | Inr True \<Rightarrow>
                    (case py_getitem feedback (JStr (str ''blockReason'')) of
                       Inl e \<Rightarrow> Inl e
                     | Inr reason \<Rightarrow> Inr (Some reason)))))"

text \<open>The body of the \<^verbatim>\<open>try\<close>: the text at \<^verbatim>\<open>candidates[0].content.parts[0].text\<close>, parsed.
  \<^verbatim>\<open>json.loads\<close> raises \<open>TypeError\<close> on anything but a string.\<close>

definition extract_json :: "env \<Rightarrow> json \<Rightarrow> fault + json" where
  "extract_json env result =
     (case py_path result
             [JStr (str ''candidates''), JInt 0, JStr (str ''content''),
              JStr (str ''parts''), JInt 0, JStr (str ''text'')] of
        Inl e \<Rightarrow> Inl e
      | Inr json_text \<Rightarrow>
          (case json_text of
             JStr s \<Rightarrow> (case json_loads env s of
                          Inl msg \<Rightarrow> Inl (JSONDecodeError msg)
                        | Inr parsed \<Rightarrow> Inr parsed)
           | _ \<Rightarrow> Inl TypeError))"

text \<open>The \<^verbatim>\<open>except (KeyError, IndexError, json.JSONDecodeError) as e\<close> clause, and \<^verbatim>\<open>str(e)\<close>
  for what it catches.\<close>

fun caught :: "fault \<Rightarrow> bool" where
  "caught (KeyError k) = True"
| "caught (IndexError msg) = True"
| "caught (JSONDecodeError msg) = True"
| "caught e = False"

fun exc_str :: "(json \<Rightarrow> pystr) \<Rightarrow> fault \<Rightarrow> pystr" where
  "exc_str repr (KeyError k) = py_repr_of repr k"
| "exc_str repr (IndexError msg) = msg"
| "exc_str repr (JSONDecodeError msg) = msg"
| "exc_str repr e = []"

definition call_gemini_api :: "env \<Rightarrow> json \<Rightarrow> world \<Rightarrow> (fault + json) \<times> world" where
  "call_gemini_api env payload w =
     (if API_KEY env = [] \<or> API_KEY env = str ''YOUR_API_KEY_HERE''
      then (Inl (HTTPException 500 (str ''Google AI API Key is not set in main.py.'')), w)
      else
        let w1 = w\<lparr>posted := posted w @ [payload]\<rparr> in
        (case requests_post env payload of
           NetFails \<Rightarrow> (Inl RequestException, w1)
         | Responds response \<Rightarrow>
             if status_code response \<noteq> 200
             then (Inl (HTTPException (status_code response)
                          (str ''API call failed: '' @ text_of response)), w1)
             else
               (case body_json response of
                  Inl msg \<Rightarrow> (Inl (JSONDecodeError msg), w1)
                | Inr result \<Rightarrow>
                    let w2 = w1\<lparr>stdout := stdout w1 @
                                   [[JStr (str ''Gemini API raw response:''), result]]\<rparr> in
                    (case block_reason result of
                       Inl e \<Rightarrow> (Inl e, w2)
                     | Inr (Some reason) \<Rightarrow>
                         (Inl (HTTPException 400
                                 (str ''Request blocked by API: '' @ py_str (py_repr env) reason)), w2)
                     | Inr None \<Rightarrow>
                         (case extract_json env result of
                            Inr parsed \<Rightarrow> (Inr parsed, w2)
                          | Inl e \<Rightarrow>
                              if caught e
                              then (Inl (HTTPException 500
                                           (str ''Invalid response structure from AI: '' @
                                            exc_str (py_repr env) e)),
                                    w2\<lparr>stdout := stdout w2 @
                                         [[JStr (str ''Error parsing Gemini response:''), result]]\<rparr>)
                              else (Inl e, w2))))))"


section \<open>The stored tests\<close>

text \<open>
  The request body of \<^verbatim>\<open>POST /api/tests\<close> after validation: the pydantic model \<^verbatim>\<open>Test\<close>
  (the field \<^verbatim>\<open>id\<close> is \<open>id'\<close> here), and \<^verbatim>\<open>test.dict()\<close>.
\<close>

record Test =
  id' :: pystr
  title :: pystr
  duration :: int
  questions :: "(pystr \<times> json) list list"
  createdAt :: pystr

definition Test_dict :: "Test \<Rightarrow> json" where
  "Test_dict test =
     JObj [(str ''id'', JStr (id' test)),
           (str ''title'', JStr (title test)),
           (str ''duration'', JInt (duration test)),
           (str ''questions'', JArr (map JObj (questions test))),
           (str ''createdAt'', JStr (createdAt test))]"

subsection \<open>\<^verbatim>\<open>GET /api/tests\<close>\<close>

text \<open>
  \<^verbatim>\<open>tests.sort(key=lambda x: x.get("createdAt", ""), reverse=True)\<close>. The keys are computed
  first, one per element. The sort is stable and compares keys with \<^verbatim>\<open><\<close> only; with
  \<^verbatim>\<open>reverse=True\<close> CPython reverses the list, sorts it in ascending order, and reverses the
  result. The ascending sort is written as an insertion sort that puts an element after
  the elements it is not smaller than.
\<close>

fun sort_keys :: "json list \<Rightarrow> fault + (json \<times> json) list" where
  "sort_keys [] = Inr []"
| "sort_keys (x # xs) =
     (case py_get x (str ''createdAt'') (JStr []) of
        Inl e \<Rightarrow> Inl e
      | Inr k \<Rightarrow> (case sort_keys xs of
                    Inl e \<Rightarrow> Inl e
                  | Inr ks \<Rightarrow> Inr ((k, x) # ks)))"

fun insert_sorted :: "json \<times> json \<Rightarrow> (json \<times> json) list \<Rightarrow> fault + (json \<times> json) list" where
  "insert_sorted x [] = Inr [x]"
| "insert_sorted x (y # ys) =
     (case py_lt (fst x) (fst y) of
        Inl e \<Rightarrow> Inl e
      | Inr True \<Rightarrow> Inr (x # y # ys)
      | Inr False \<Rightarrow> (case insert_sorted x ys of
                        Inl e \<Rightarrow> Inl e
                      | Inr zs \<Rightarrow> Inr (y # zs)))"

fun sort_ascending :: "(json \<times> json) list \<Rightarrow> (json \<times> json) list \<Rightarrow> fault + (json \<times> json) list" where
  "sort_ascending acc [] = Inr acc"
| "sort_ascending acc (x # xs) =
     (case insert_sorted x acc of
        Inl e \<Rightarrow> Inl e
      | Inr acc' \<Rightarrow> sort_ascending acc' xs)"

definition sort_newest_first :: "json list \<Rightarrow> fault + json list" where
  "sort_newest_first tests =
     (case sort_keys tests of
        Inl e \<Rightarrow> Inl e
      | Inr keyed \<Rightarrow> (case sort_ascending [] (rev keyed) of
                       Inl e \<Rightarrow> Inl e
                     | Inr ordered \<Rightarrow> Inr (map snd (rev ordered))))"

text \<open>The body of the function (lines 94 to 97): what it returns.\<close>

definition get_all_tests_returns :: "world \<Rightarrow> fault + json" where
  "get_all_tests_returns w =
     (case load_tests_from_db w of
        Inl e \<Rightarrow> Inl e
      | Inr tests \<Rightarrow>
          (case tests of
             JArr ts \<Rightarrow> (case sort_newest_first ts of
                          Inl e \<Rightarrow> Inl e
                        | Inr ordered \<Rightarrow> Inr (JArr ordered))
           | _ \<Rightarrow> Inl AttributeError))"

text \<open>
  The route is declared with \<^verbatim>\<open>response_model=List[Test]\<close>, so FastAPI validates what the
  function returns against the model before it answers, and answers 500 when that
  fails. An item passes only if it is a dict with all five fields of \<^verbatim>\<open>Test\<close>; the body
  then holds, for each item, these five fields in the order of the model, and no other.
  \<open>exact_Test\<close> is that record for a dict whose five fields have exactly the declared types
  (\<^verbatim>\<open>str\<close>, \<^verbatim>\<open>str\<close>, \<^verbatim>\<open>int\<close>, a list of dicts, \<^verbatim>\<open>str\<close>); for a dict with the five fields but
  other types the outcome is pydantic's, a parameter.
\<close>

definition str_field :: "(pystr \<times> json) list \<Rightarrow> pystr \<Rightarrow> pystr option" where
  "str_field d key = (case map_of d key of Some (JStr s) \<Rightarrow> Some s | _ \<Rightarrow> None)"

definition int_field :: "(pystr \<times> json) list \<Rightarrow> pystr \<Rightarrow> int option" where
  "int_field d key = (case map_of d key of Some (JInt i) \<Rightarrow> Some i | _ \<Rightarrow> None)"

definition dicts_field :: "(pystr \<times> json) list \<Rightarrow> pystr \<Rightarrow> json list option" where
  "dicts_field d key =
     (case map_of d key of
        Some (JArr xs) \<Rightarrow> if list_all is_object xs then Some xs else None
      | _ \<Rightarrow> None)"

definition exact_Test :: "json \<Rightarrow> json option" where
  "exact_Test t =
     (case t of
        JObj d \<Rightarrow>
          (case str_field d (str ''id'') of
             None \<Rightarrow> None
           | Some i \<Rightarrow>
          (case str_field d (str ''title'') of
             None \<Rightarrow> None
           | Some n \<Rightarrow>
          (case int_field d (str ''duration'') of
             None \<Rightarrow> None
           | Some m \<Rightarrow>
          (case dicts_field d (str ''questions'') of
             None \<Rightarrow> None
           | Some qs \<Rightarrow>
          (case str_field d (str ''createdAt'') of
             None \<Rightarrow> None
           | Some c \<Rightarrow>
               Some (JObj [(str ''id'', JStr i), (str ''title'', JStr n),
                           (str ''duration'', JInt m), (str ''questions'', JArr qs),
                           (str ''createdAt'', JStr c)]))))))
      | _ \<Rightarrow> None)"

definition Test_fields :: "pystr list" where
  "Test_fields =
     [str ''id'', str ''title'', str ''duration'', str ''questions'', str ''createdAt'']"

definition response_Test :: "env \<Rightarrow> json \<Rightarrow> json option" where
  "response_Test env t =
     (case t of
        JObj d \<Rightarrow>
          if list_all (\<lambda>key. map_of d key \<noteq> None) Test_fields
          then (case exact_Test t of Some r \<Rightarrow> Some r | None \<Rightarrow> pydantic_coerce env t)
          else None
      | _ \<Rightarrow> None)"

fun response_items :: "env \<Rightarrow> json list \<Rightarrow> json list option" where
  "response_items env [] = Some []"
| "response_items env (t # ts) =
     (case response_Test env t of
        None \<Rightarrow> None
      | Some r \<Rightarrow> (case response_items env ts of None \<Rightarrow> None | Some rs \<Rightarrow> Some (r # rs)))"

definition response_model_List_Test :: "env \<Rightarrow> json \<Rightarrow> fault + json" where
  "response_model_List_Test env v =
     (case v of
        JArr ts \<Rightarrow> (case response_items env ts of
                     None \<Rightarrow> Inl ResponseValidationError
                   | Some rs \<Rightarrow> Inr (JArr rs))
      | _ \<Rightarrow> Inl ResponseValidationError)"

text \<open>The route (lines 91 to 97): the function, then the validation of its result.\<close>

definition get_all_tests :: "env \<Rightarrow> world \<Rightarrow> fault + json" where
  "get_all_tests env w =
     (case get_all_tests_returns w of
        Inl e \<Rightarrow> Inl e
      | Inr tests \<Rightarrow> response_model_List_Test env tests)"

subsection \<open>\<^verbatim>\<open>POST /api/tests\<close>\<close>

definition save_new_test :: "write_outcome \<Rightarrow> Test \<Rightarrow> world \<Rightarrow> (fault + json) \<times> world" where
  "save_new_test io test w =
     (case load_tests_from_db w of
        Inl e \<Rightarrow> (Inl e, w)
      | Inr tests \<Rightarrow>
          (case tests of
             JArr ts \<Rightarrow>
               (Inr (JObj [(str ''status'', JStr (str ''success'')),
                           (str ''test_id'', JStr (id' test))]),
                snd (save_tests_to_db io (JArr (ts @ [Test_dict test])) w))
           | _ \<Rightarrow> (Inl AttributeError, w)))"

subsection \<open>\<^verbatim>\<open>DELETE /api/tests/{test_id}\<close>\<close>

text \<open>The comprehension \<^verbatim>\<open>[t for t in tests if t.get("id") != test_id]\<close>.\<close>

fun other_ids :: "pystr \<Rightarrow> json list \<Rightarrow> fault + json list" where
  "other_ids test_id [] = Inr []"
| "other_ids test_id (t # ts) =
     (case py_get t (str ''id'') JNull of
        Inl e \<Rightarrow> Inl e
      | Inr v \<Rightarrow> (case other_ids test_id ts of
                    Inl e \<Rightarrow> Inl e
                  | Inr kept \<Rightarrow> Inr (if v \<noteq> JStr test_id then t # kept else kept)))"

definition delete_a_test :: "write_outcome \<Rightarrow> pystr \<Rightarrow> world \<Rightarrow> (fault + json) \<times> world" where
  "delete_a_test io test_id w =
     (case load_tests_from_db w of
        Inl e \<Rightarrow> (Inl e, w)
      | Inr tests \<Rightarrow>
          (case py_len tests of
             Inl e \<Rightarrow> (Inl e, w)
           | Inr initial_length \<Rightarrow>
               (case py_iter tests of
                  Inl e \<Rightarrow> (Inl e, w)
                | Inr items \<Rightarrow>
                    (case other_ids test_id items of
                       Inl e \<Rightarrow> (Inl e, w)
                     | Inr kept \<Rightarrow>
                         if length kept = initial_length
                         then (Inl (HTTPException 404 (str ''Test not found'')), w)
                         else (Inr (JObj [(str ''status'', JStr (str ''success'')),
                                          (str ''deleted_id'', JStr test_id)]),
                               snd (save_tests_to_db io (JArr kept) w))))))"

section \<open>\<^verbatim>\<open>POST /api/generate-paper\<close>\<close>

subsection \<open>The prompt and the schema\<close>

text \<open>The literal pieces of the prompt, one list element per source line.\<close>

definition prompt_intro :: pystr where
  \<open>prompt_intro =
    concat
    [str ''\<newline>    You are an expert exam paper creator. Your task is to generate a complete, realistic mock test based on the provided exam name, matching the real exam's structure as closely as possible.'',
     str ''\<newline>    Exam Name: "'']\<close>

definition prompt_rules_1_2 :: pystr where
  \<open>prompt_rules_1_2 =
    concat
    [str ''"'',
     str ''\<newline>    Instructions:'',
     str ''\<newline>    1. Research and Determine Structure: First, research and determine the standard number of questions for the specified exam.'',
     str ''\<newline>    2. Generate Exact Question Count: Generate exactly that number of questions. Adhere strictly to the official exam pattern.'']\<close>

definition prompt_rule_3 :: pystr where
  \<open>prompt_rule_3 =
    str ''\<newline>    3. Create Content: Generate a relevant test title, a suitable duration in minutes based on the official time limit, and the full set of questions.''\<close>

definition prompt_rules_4_8 :: pystr where
  \<open>prompt_rules_4_8 =
    concat
    [str ''\<newline>    4. Bilingual Questions: For each question and its options, provide both English and a high-quality Hindi translation in the format: "English Text ('' @ [2361, 2367, 2344, 2381, 2342, 2368] @ str '' '' @ [2335, 2375, 2325, 2381, 2360, 2381, 2335] @ str '')".'',
     str ''\<newline>    5. Structure Output: The final output MUST be a single, valid JSON object.'',
     str ''\<newline>    6. CRITICAL RULE - Each object in the "questions" array MUST have:'',
     str ''\<newline>       - a non-empty "questionText" (the actual question, not the options or answers),'',
     str ''\<newline>       - an array of 4 "options",'',
     str ''\<newline>       - and a "correctOptionIndex".'',
     str ''\<newline>       The 'questionText' field must contain the full question. Do NOT leave it empty, do NOT repeat the options or answers in this field. If you cannot comply, return an error message in the 'questionText' field.'',
     str ''\<newline>    7. DOUBLE-CHECK: For each question, ensure that the answer at 'correctOptionIndex' is truly the correct answer for the question and options provided. Do not make mistakes in answer marking. If unsure, return an error message in the 'questionText' field.'',
     str ''\<newline>    8. For each question, add a brief explanation (in English) of why the correct answer is correct, in an 'explanation' field.'',
     str ''\<newline>    Generate the full mock test now.'',
     str ''\<newline>    '']\<close>

definition count_override :: "(json \<Rightarrow> pystr) \<Rightarrow> json \<Rightarrow> pystr" where
  \<open>count_override repr question_count =
     str ''\<newline>    2a. Override: Generate exactly '' @ py_str repr question_count @
     str '' questions, regardless of the official pattern.''\<close>

definition duration_override :: "(json \<Rightarrow> pystr) \<Rightarrow> json \<Rightarrow> pystr" where
  \<open>duration_override repr duration' =
     str ''\<newline>    3a. Override: Set the test duration to exactly '' @ py_str repr duration' @
     str '' minutes.''\<close>

definition paper_prompt :: "(json \<Rightarrow> pystr) \<Rightarrow> json \<Rightarrow> json \<Rightarrow> json \<Rightarrow> pystr" where
  "paper_prompt repr exam_name duration' question_count =
     prompt_intro @ py_str repr exam_name @ prompt_rules_1_2 @
     (if truthy question_count then count_override repr question_count else []) @
     prompt_rule_3 @
     (if truthy duration' then duration_override repr duration' else []) @
     prompt_rules_4_8"

definition paper_schema :: json where
  "paper_schema =
     JObj [(str ''type'', JStr (str ''OBJECT'')),
           (str ''properties'', JObj
              [(str ''title'', JObj [(str ''type'', JStr (str ''STRING''))]),
               (str ''duration'', JObj [(str ''type'', JStr (str ''NUMBER''))]),
               (str ''questions'', JObj
                  [(str ''type'', JStr (str ''ARRAY'')),
                   (str ''items'', JObj
                      [(str ''type'', JStr (str ''OBJECT'')),
                       (str ''properties'', JObj
                          [(str ''questionText'', JObj [(str ''type'', JStr (str ''STRING''))]),
                           (str ''options'', JObj
                              [(str ''type'', JStr (str ''ARRAY'')),
                               (str ''items'', JObj [(str ''type'', JStr (str ''STRING''))])]),
                           (str ''correctOptionIndex'', JObj [(str ''type'', JStr (str ''NUMBER''))]),
                           (str ''explanation'', JObj [(str ''type'', JStr (str ''STRING''))])]),
                       (str ''required'', JArr
                          [JStr (str ''questionText''), JStr (str ''options''),
                           JStr (str ''correctOptionIndex''), JStr (str ''explanation'')])])])]),
           (str ''required'', JArr
              [JStr (str ''title''), JStr (str ''duration''), JStr (str ''questions'')])]"

definition gemini_payload :: "pystr \<Rightarrow> json \<Rightarrow> json" where
  "gemini_payload prompt schema =
     JObj [(str ''contents'', JArr [JObj [(str ''parts'', JArr [JObj [(str ''text'', JStr prompt)]])]]),
           (str ''generationConfig'', JObj
              [(str ''responseMimeType'', JStr (str ''application/json'')),
               (str ''responseSchema'', schema)])]"

subsection \<open>The validation of the parsed response\<close>

text \<open>\<^verbatim>\<open>not q.get("questionText") or not q["questionText"].strip()\<close>: only a string has
  \<^verbatim>\<open>strip\<close>.\<close>

definition text_missing :: "json \<Rightarrow> fault + bool" where
  "text_missing q =
     (case py_get q (str ''questionText'') JNull of
        Inl e \<Rightarrow> Inl e
      | Inr t \<Rightarrow>
          if \<not> truthy t then Inr True
          else (case t of
                  JStr s \<Rightarrow> Inr (\<not> truthy (JStr (py_strip s)))
                | _ \<Rightarrow> Inl AttributeError))"

text \<open>\<^verbatim>\<open>not isinstance(correct_idx, int) or correct_idx < 0 or correct_idx >= len(options)\<close>,
  evaluated left to right.\<close>

definition index_out_of_range :: "json \<Rightarrow> json \<Rightarrow> fault + bool" where
  "index_out_of_range options correct_idx =
     (case int_value correct_idx of
        None \<Rightarrow> Inr True
      | Some i \<Rightarrow>
          if i < 0 then Inr True
          else (case py_len options of
                  Inl e \<Rightarrow> Inl e
                | Inr n \<Rightarrow> Inr (i \<ge> int n)))"

text \<open>
  The heuristic block: under \<^verbatim>\<open>isinstance(correct_idx, int) and 0 <= correct_idx < len(options)\<close>
  it evaluates \<^verbatim>\<open>options[correct_idx].split('(')[0].strip().lower()\<close> and a substring test,
  and then does nothing with them (\<^verbatim>\<open>pass\<close>). What remains of it is what it can raise: the
  subscription, and \<^verbatim>\<open>split\<close> on an option that is not a string.
\<close>

definition answer_heuristic :: "json \<Rightarrow> json \<Rightarrow> fault + unit" where
  "answer_heuristic options correct_idx =
     (case int_value correct_idx of
        None \<Rightarrow> Inr ()
      | Some i \<Rightarrow>
          if 0 \<le> i
          then (case py_len options of
                  Inl e \<Rightarrow> Inl e
                | Inr n \<Rightarrow>
                    if i < int n
                    then (case py_getitem options correct_idx of
                            Inl e \<Rightarrow> Inl e
                          | Inr answer \<Rightarrow> (case answer of JStr s \<Rightarrow> Inr () | _ \<Rightarrow> Inl AttributeError))
                    else Inr ())
          else Inr ())"

definition warning_text :: "(json \<Rightarrow> pystr) \<Rightarrow> nat \<Rightarrow> json \<Rightarrow> pystr" where
  "warning_text repr idx correct_idx =
     str ''Question '' @ dec_nat (idx + 1) @ str '': correctOptionIndex '' @
     py_str repr correct_idx @ str '' is out of range.''"

text \<open>The loop \<^verbatim>\<open>for idx, q in enumerate(...)\<close>: it ends by the \<^verbatim>\<open>return\<close> inside it, by an
  exception, or with the warnings collected.\<close>

datatype scan = MissingText | Warnings "pystr list"

fun scan_questions :: "(json \<Rightarrow> pystr) \<Rightarrow> nat \<Rightarrow> json list \<Rightarrow> pystr list \<Rightarrow> fault + scan" where
  "scan_questions repr idx [] warnings = Inr (Warnings warnings)"
| "scan_questions repr idx (q # qs) warnings =
     (case text_missing q of
        Inl e \<Rightarrow> Inl e
      | Inr True \<Rightarrow> Inr MissingText
      | Inr False \<Rightarrow>
          (case py_get q (str ''options'') (JArr []) of
             Inl e \<Rightarrow> Inl e
           | Inr options \<Rightarrow>
               (case py_get q (str ''correctOptionIndex'') JNull of
                  Inl e \<Rightarrow> Inl e
                | Inr correct_idx \<Rightarrow>
                    (case index_out_of_range options correct_idx of
                       Inl e \<Rightarrow> Inl e
                     | Inr bad \<Rightarrow>
                         (case answer_heuristic options correct_idx of
                            Inl e \<Rightarrow> Inl e
                          | Inr u \<Rightarrow>
                              scan_questions repr (idx + 1) qs
                                (if bad then warnings @ [warning_text repr idx correct_idx]
                                 else warnings))))))"

definition validate_paper :: "(json \<Rightarrow> pystr) \<Rightarrow> json \<Rightarrow> fault + json" where
  "validate_paper repr result =
     (case py_get result (str ''questions'') (JArr []) of
        Inl e \<Rightarrow> Inl e
      | Inr qs \<Rightarrow>
          (case py_iter qs of
             Inl e \<Rightarrow> Inl e
           | Inr items \<Rightarrow>
               (case scan_questions repr 0 items [] of
                  Inl e \<Rightarrow> Inl e
                | Inr MissingText \<Rightarrow>
                    Inr (JObj [(str ''error'',
                                JStr (str ''AI response missing questionText in one or more questions.'')),
                               (str ''raw_response'', result)])
                | Inr (Warnings warnings) \<Rightarrow>
                    if warnings \<noteq> []
                    then py_setitem result (str ''warnings'') (JArr (map JStr warnings))
                    else Inr result)))"

subsection \<open>The handler\<close>

definition generate_paper :: "env \<Rightarrow> json \<Rightarrow> world \<Rightarrow> (fault + json) \<times> world" where
  "generate_paper env data w =
     (case py_get data (str ''examName'') (JStr []) of
        Inl e \<Rightarrow> (Inl e, w)
      | Inr exam_name \<Rightarrow>
          (case py_get data (str ''duration'') JNull of
             Inl e \<Rightarrow> (Inl e, w)
           | Inr duration' \<Rightarrow>
               (case py_get data (str ''questionCount'') JNull of
                  Inl e \<Rightarrow> (Inl e, w)
                | Inr question_count \<Rightarrow>
                    (case call_gemini_api env
                            (gemini_payload
                               (paper_prompt (py_repr env) exam_name duration' question_count)
                               paper_schema) w of
                       (Inl e, w') \<Rightarrow> (Inl e, w')
                     | (Inr result, w') \<Rightarrow> (validate_paper (py_repr env) result, w')))))"


section \<open>Notions used in the statements\<close>

subsection \<open>Stored records\<close>

text \<open>
  A stored record is a JSON object. \<open>has_id\<close> says that \<^verbatim>\<open>t.get("id")\<close> is the given string.
  \<open>createdAt_key\<close> is the sort key \<^verbatim>\<open>x.get("createdAt", "")\<close> of a record whose key is a
  string, which \<open>string_keyed\<close> says it is: the field is a string, or the record has none
  (\<open>lacks_createdAt\<close>) and the key is the empty string.
\<close>

definition has_id :: "pystr \<Rightarrow> json \<Rightarrow> bool" where
  "has_id test_id t = (py_get t (str ''id'') JNull = Inr (JStr test_id))"

definition string_keyed :: "json \<Rightarrow> bool" where
  "string_keyed t =
     (case py_get t (str ''createdAt'') (JStr []) of Inr (JStr s) \<Rightarrow> True | _ \<Rightarrow> False)"

definition createdAt_key :: "json \<Rightarrow> pystr" where
  "createdAt_key t =
     (case py_get t (str ''createdAt'') (JStr []) of Inr (JStr s) \<Rightarrow> s | _ \<Rightarrow> [])"

definition lacks_createdAt :: "json \<Rightarrow> bool" where
  "lacks_createdAt t = (case t of JObj d \<Rightarrow> map_of d (str ''createdAt'') = None | _ \<Rightarrow> False)"

text \<open>
  \<open>stored_Test\<close>: a stored record that has the five fields of \<^verbatim>\<open>Test\<close> with their declared
  types, as \<^verbatim>\<open>POST /api/tests\<close> writes it. \<open>Test_of\<close> is the record as the response model
  presents it: its five fields, in the order of the model.
\<close>

definition stored_Test :: "json \<Rightarrow> bool" where
  "stored_Test t = (exact_Test t \<noteq> None)"

definition Test_of :: "json \<Rightarrow> json" where
  "Test_of t = (case exact_Test t of Some r \<Rightarrow> r | None \<Rightarrow> t)"

text \<open>The insertion sort on records with string keys, without the error cases: what
  \<open>sort_ascending\<close> computes on them.\<close>

fun ins :: "json \<Rightarrow> json list \<Rightarrow> json list" where
  "ins x [] = [x]"
| "ins x (y # ys) = (if createdAt_key x < createdAt_key y then x # y # ys else y # ins x ys)"

fun isort :: "json list \<Rightarrow> json list \<Rightarrow> json list" where
  "isort acc [] = acc"
| "isort acc (x # xs) = isort (ins x acc) xs"

definition keyed :: "json list \<Rightarrow> (json \<times> json) list" where
  "keyed ts = map (\<lambda>t. (JStr (createdAt_key t), t)) ts"

subsection \<open>Questions\<close>

text \<open>
  A question the loop gets through without an exception and without the early return:
  an object whose \<^verbatim>\<open>questionText\<close> is a string with a character that is not whitespace,
  and whose \<^verbatim>\<open>options\<close>, if present, is a list of strings. Questions whose
  \<^verbatim>\<open>correctOptionIndex\<close> is \<^verbatim>\<open>true\<close> or \<^verbatim>\<open>false\<close> are left out as well: nothing is stated
  about them.
\<close>

fun is_string :: "json \<Rightarrow> bool" where
  "is_string (JStr s) = True"
| "is_string v = False"

definition question_ok :: "json \<Rightarrow> bool" where
  "question_ok q =
     (case q of
        JObj d \<Rightarrow>
          (case map_of d (str ''questionText'') of
             Some (JStr s) \<Rightarrow> py_strip s \<noteq> []
           | _ \<Rightarrow> False) \<and>
          (case map_of d (str ''options'') of
             None \<Rightarrow> True
           | Some (JArr os) \<Rightarrow> list_all is_string os
           | _ \<Rightarrow> False) \<and>
          (case map_of d (str ''correctOptionIndex'') of
             Some (JBool b) \<Rightarrow> False
           | _ \<Rightarrow> True)
      | _ \<Rightarrow> False)"

definition options_of :: "json \<Rightarrow> json list" where
  "options_of q =
     (case py_get q (str ''options'') (JArr []) of Inr (JArr os) \<Rightarrow> os | _ \<Rightarrow> [])"

definition index_of :: "json \<Rightarrow> json" where
  "index_of q =
     (case py_get q (str ''correctOptionIndex'') JNull of Inr v \<Rightarrow> v | _ \<Rightarrow> JNull)"

text \<open>
  The index is not an integer, or lies outside \<open>[0, len(options) - 1]\<close>; and the warnings
  such questions are due, numbered from \<open>n + 1\<close>, in order.
\<close>

definition index_flagged :: "json \<Rightarrow> bool" where
  "index_flagged q =
     (case index_of q of
        JInt i \<Rightarrow> i < 0 \<or> int (length (options_of q)) \<le> i
      | _ \<Rightarrow> True)"

definition warnings_from :: "(json \<Rightarrow> pystr) \<Rightarrow> nat \<Rightarrow> json list \<Rightarrow> pystr list" where
  "warnings_from repr n qs =
     map (\<lambda>(k, q). str ''Question '' @ dec_nat (k + 1) @ str '': correctOptionIndex '' @
                     py_str repr (index_of q) @ str '' is out of range.'')
         (filter (\<lambda>(k, q). index_flagged q) (zip [n..<n + length qs] qs))"

section \<open>Sample inputs\<close>

text \<open>A world with no file and nothing printed or posted; the module as shipped
  (\<^verbatim>\<open>API_KEY = ""\<close>); and a module with a key whose provider answers 200 with a given
  envelope.\<close>

definition fresh_world :: world where
  "fresh_world = \<lparr>DB_FILE = Missing, stdout = [], posted = []\<rparr>"

definition no_provider :: "json \<Rightarrow> net_outcome" where
  "no_provider payload = NetFails"

definition no_parse :: "pystr \<Rightarrow> pystr + json" where
  "no_parse s = Inl (str ''Expecting value'')"

definition no_repr :: "json \<Rightarrow> pystr" where
  "no_repr v = []"

definition no_coerce :: "json \<Rightarrow> json option" where
  "no_coerce t = None"

definition shipped_env :: env where
  "shipped_env =
     \<lparr>API_KEY = [], requests_post = no_provider, json_loads = no_parse, py_repr = no_repr,
      pydantic_coerce = no_coerce\<rparr>"

definition answering :: "json \<Rightarrow> json \<Rightarrow> net_outcome" where
  "answering envelope payload =
     Responds \<lparr>status_code = 200, text_of = [], body_json = Inr envelope\<rparr>"

definition keyed_env :: "json \<Rightarrow> env" where
  "keyed_env envelope =
     \<lparr>API_KEY = str ''k'', requests_post = answering envelope, json_loads = no_parse,
      py_repr = no_repr, pydantic_coerce = no_coerce\<rparr>"

text \<open>Stored records: one with all five fields, one without \<^verbatim>\<open>createdAt\<close>; stores with a
  tie on \<^verbatim>\<open>createdAt\<close> (with and without the undated record), and a store in which two
  records share an id.\<close>

definition sample_record :: "string \<Rightarrow> string \<Rightarrow> string \<Rightarrow> json" where
  "sample_record i t c =
     JObj [(str ''id'', JStr (str i)), (str ''title'', JStr (str t)), (str ''duration'', JInt 60),
           (str ''questions'', JArr []), (str ''createdAt'', JStr (str c))]"

definition undated_record :: json where
  "undated_record =
     JObj [(str ''id'', JStr (str ''u'')), (str ''title'', JStr (str ''Undated'')),
           (str ''duration'', JInt 60), (str ''questions'', JArr [])]"

definition dated_tests :: "json list" where
  "dated_tests =
     [sample_record ''a'' ''First'' ''2024-01-02'',
      sample_record ''b'' ''Second'' ''2024-03-01'',
      sample_record ''c'' ''Third'' ''2024-01-02'']"

definition sample_tests :: "json list" where
  "sample_tests =
     [sample_record ''a'' ''First'' ''2024-01-02'',
      undated_record,
      sample_record ''b'' ''Second'' ''2024-03-01'',
      sample_record ''c'' ''Third'' ''2024-01-02'']"

definition twin_tests :: "json list" where
  "twin_tests =
     [sample_record ''a'' ''First'' ''2024-01-02'', sample_record ''a'' ''Second'' ''2024-03-01'']"

definition holding :: "json list \<Rightarrow> world" where
  "holding ts = \<lparr>DB_FILE = Holds (JArr ts), stdout = [], posted = []\<rparr>"

definition sample_test :: Test where
  "sample_test =
     \<lparr>id' = str ''a'', title = str ''First'', duration = 60, questions = [],
      createdAt = str ''2024-01-02''\<rparr>"

text \<open>Questions and parsed responses.\<close>

definition question :: "pystr \<Rightarrow> json list \<Rightarrow> json \<Rightarrow> json" where
  "question t os i =
     JObj [(str ''questionText'', JStr t), (str ''options'', JArr os),
           (str ''correctOptionIndex'', i), (str ''explanation'', JStr (str ''...''))]"

definition four_options :: "json list" where
  "four_options = [JStr (str ''A''), JStr (str ''B''), JStr (str ''C''), JStr (str ''D'')]"

definition paper :: "json list \<Rightarrow> (pystr \<times> json) list" where
  "paper qs =
     [(str ''title'', JStr (str ''Sample Exam Mock Test'')), (str ''duration'', JInt 60),
      (str ''questions'', JArr qs)]"

definition sample_questions :: "json list" where
  "sample_questions =
     [question (str ''Q1?'') four_options (JInt 0),
      question (str ''Q2?'') four_options (JInt 5),
      question (str ''Q3?'') four_options (JFloat (str ''2.0''))]"

definition blank_text_questions :: "json list" where
  "blank_text_questions = [question (str '' '') four_options (JInt 5)]"

definition numeric_options_questions :: "json list" where
  "numeric_options_questions =
     [question (str ''2 + 2 = ?'') [JInt 3, JInt 4, JInt 5, JInt 6] (JInt 1),
      question [] four_options (JInt 0)]"

text \<open>Provider envelopes and request bodies.\<close>

definition no_candidates :: json where
  "no_candidates = JObj [(str ''candidates'', JArr [])]"

definition no_candidates_with_usage :: json where
  "no_candidates_with_usage =
     JObj [(str ''candidates'', JArr []), (str ''usageMetadata'', JObj [])]"

definition zero_count_request :: "(pystr \<times> json) list" where
  "zero_count_request =
     [(str ''examName'', JStr (str ''Sample Exam'')), (str ''questionCount'', JInt 0)]"

definition override_request :: "(pystr \<times> json) list" where
  "override_request =
     [(str ''examName'', JStr (str ''Sample Exam'')), (str ''questionCount'', JInt 2),
      (str ''duration'', JInt 45)]"

section \<open>Properties of the stored tests\<close>

subsection \<open>The sort on string keys\<close>

lemma string_keyed_get:
  "string_keyed t \<Longrightarrow> py_get t (str ''createdAt'') (JStr []) = Inr (JStr (createdAt_key t))"
  by (auto simp: string_keyed_def createdAt_key_def split: sum.splits json.splits)

lemma sort_keys_strings:
  "list_all string_keyed ts \<Longrightarrow> sort_keys ts = Inr (keyed ts)"
  by (induction ts) (simp_all add: keyed_def string_keyed_get)

lemma insert_sorted_strings:
  "insert_sorted (JStr (createdAt_key x), x) (keyed ys) = Inr (keyed (ins x ys))"
  by (induction ys) (simp_all add: keyed_def)

lemma sort_ascending_strings:
  "sort_ascending (keyed acc) (keyed xs) = Inr (keyed (isort acc xs))"
proof (induction xs arbitrary: acc)
  case Nil
  then show ?case by (simp add: keyed_def)
next
  case (Cons x xs)
  have "keyed (x # xs) = (JStr (createdAt_key x), x) # keyed xs"
    by (simp add: keyed_def)
  then show ?case
    using Cons.IH [of "ins x acc"] insert_sorted_strings [of x acc] by simp
qed

lemma sort_newest_first_strings:
  assumes "list_all string_keyed ts"
  shows "sort_newest_first ts = Inr (rev (isort [] (rev ts)))"
proof -
  have k: "rev (keyed ts) = keyed (rev ts)"
    by (simp add: keyed_def rev_map)
  have e: "keyed [] = []"
    by (simp add: keyed_def)
  have s: "map snd (keyed xs) = xs" for xs
    by (simp add: keyed_def comp_def)
  have "sort_ascending [] (keyed (rev ts)) = Inr (keyed (isort [] (rev ts)))"
    using sort_ascending_strings [of "[]" "rev ts"] e by simp
  then show ?thesis
    using sort_keys_strings [OF assms] k
    by (simp add: sort_newest_first_def rev_map [symmetric] s)
qed

lemma get_all_tests_returns_strings:
  assumes "load_tests_from_db w = Inr (JArr ts)" and "list_all string_keyed ts"
  shows "get_all_tests_returns w = Inr (JArr (rev (isort [] (rev ts))))"
  using assms by (simp add: get_all_tests_returns_def sort_newest_first_strings)

lemma mset_ins: "mset (ins x ys) = add_mset x (mset ys)"
  by (induction ys) simp_all

lemma mset_isort: "mset (isort acc xs) = mset acc + mset xs"
  by (induction xs arbitrary: acc) (simp_all add: mset_ins)

lemma set_ins: "set (ins x ys) = insert x (set ys)"
  by (induction ys) auto

lemma sorted_ins:
  "sorted_wrt (\<lambda>a b. createdAt_key a \<le> createdAt_key b) ys \<Longrightarrow>
   sorted_wrt (\<lambda>a b. createdAt_key a \<le> createdAt_key b) (ins x ys)"
  by (induction ys) (auto simp add: set_ins)

lemma sorted_isort:
  "sorted_wrt (\<lambda>a b. createdAt_key a \<le> createdAt_key b) acc \<Longrightarrow>
   sorted_wrt (\<lambda>a b. createdAt_key a \<le> createdAt_key b) (isort acc xs)"
  by (induction xs arbitrary: acc) (simp_all add: sorted_ins)

lemma filter_ins:
  "sorted_wrt (\<lambda>a b. createdAt_key a \<le> createdAt_key b) ys \<Longrightarrow>
   filter (\<lambda>t. createdAt_key t = k) (ins x ys) =
   filter (\<lambda>t. createdAt_key t = k) ys @ (if createdAt_key x = k then [x] else [])"
proof (induction ys)
  case Nil
  then show ?case by simp
next
  case (Cons y ys)
  show ?case
  proof (cases "createdAt_key x < createdAt_key y")
    case True
    have "\<forall>z \<in> set (y # ys). createdAt_key x < createdAt_key z"
      using True Cons.prems by auto
    then have "createdAt_key x = k \<Longrightarrow> filter (\<lambda>t. createdAt_key t = k) (y # ys) = []"
      by (auto simp add: filter_empty_conv)
    with True show ?thesis by auto
  next
    case False
    with Cons show ?thesis by auto
  qed
qed

lemma filter_isort:
  "sorted_wrt (\<lambda>a b. createdAt_key a \<le> createdAt_key b) acc \<Longrightarrow>
   filter (\<lambda>t. createdAt_key t = k) (isort acc xs) =
   filter (\<lambda>t. createdAt_key t = k) acc @ filter (\<lambda>t. createdAt_key t = k) xs"
  by (induction xs arbitrary: acc) (simp_all add: filter_ins sorted_ins)

lemma descending_rev_isort:
  "sorted_wrt (\<lambda>a b. createdAt_key b \<le> createdAt_key a) (rev (isort [] xs))"
proof -
  have "sorted_wrt (\<lambda>a b. createdAt_key a \<le> createdAt_key b) (isort [] xs)"
    by (rule sorted_isort) simp
  then show ?thesis
    by (simp add: sorted_wrt_rev)
qed

lemma stable_rev_isort:
  "filter (\<lambda>t. createdAt_key t = k) (rev (isort [] (rev ts))) =
   filter (\<lambda>t. createdAt_key t = k) ts"
proof -
  have "filter (\<lambda>t. createdAt_key t = k) (isort [] (rev ts)) =
        filter (\<lambda>t. createdAt_key t = k) (rev ts)"
    using filter_isort [of "[]" k "rev ts"] by simp
  then show ?thesis
    by (simp add: rev_filter [symmetric])
qed

lemma lacks_createdAt_key: "lacks_createdAt t \<Longrightarrow> createdAt_key t = []"
  by (cases t) (simp_all add: lacks_createdAt_def createdAt_key_def)

lemma undated_last:
  assumes "sorted_wrt (\<lambda>a b. createdAt_key b \<le> createdAt_key a) out"
    and "i < j" and "j < length out" and "lacks_createdAt (out ! i)"
  shows "createdAt_key (out ! j) = []"
proof -
  have "createdAt_key (out ! j) \<le> createdAt_key (out ! i)"
    using assms(1-3) by (simp add: sorted_wrt_iff_nth_less)
  then show ?thesis
    using lacks_createdAt_key [OF assms(4)] by simp
qed

subsection \<open>\<^verbatim>\<open>GET /api/tests\<close>\<close>

text \<open>What the function returns when the file holds a list of records whose
  \<^verbatim>\<open>createdAt\<close>, where present, is a string: the records newest first, ties in stored
  order, records without \<^verbatim>\<open>createdAt\<close> last.\<close>

lemma get_all_tests_returns_sorted:
  assumes "load_tests_from_db w = Inr (JArr ts)" and "list_all string_keyed ts"
  shows "\<exists>out. get_all_tests_returns w = Inr (JArr out) \<and>
           mset out = mset ts \<and>
           sorted_wrt (\<lambda>a b. createdAt_key b \<le> createdAt_key a) out \<and>
           (\<forall>k. filter (\<lambda>t. createdAt_key t = k) out = filter (\<lambda>t. createdAt_key t = k) ts) \<and>
           (\<forall>i j. i < j \<and> j < length out \<and> lacks_createdAt (out ! i) \<longrightarrow>
                  createdAt_key (out ! i) = [] \<and> createdAt_key (out ! j) = [])"
proof -
  let ?out = "rev (isort [] (rev ts))"
  have "get_all_tests_returns w = Inr (JArr ?out)"
    using assms by (rule get_all_tests_returns_strings)
  moreover have "mset ?out = mset ts"
    by (simp add: mset_isort)
  moreover have d: "sorted_wrt (\<lambda>a b. createdAt_key b \<le> createdAt_key a) ?out"
    by (rule descending_rev_isort)
  moreover have "\<forall>k. filter (\<lambda>t. createdAt_key t = k) ?out = filter (\<lambda>t. createdAt_key t = k) ts"
    by (simp add: stable_rev_isort)
  moreover have "\<forall>i j. i < j \<and> j < length ?out \<and> lacks_createdAt (?out ! i) \<longrightarrow>
                   createdAt_key (?out ! i) = [] \<and> createdAt_key (?out ! j) = []"
    using undated_last [OF d] lacks_createdAt_key by blast
  ultimately show ?thesis by blast
qed

text \<open>The response model on stored records.\<close>

lemma exact_Test_Some:
  assumes "exact_Test t = Some r"
  shows "string_keyed t" and "createdAt_key r = createdAt_key t"
    and "response_Test env t = Some r"
proof -
  from assms obtain d where t: "t = JObj d"
    by (cases t) (simp_all add: exact_Test_def)
  from assms t obtain i n m qs c where f:
    "str_field d (str ''id'') = Some i" "str_field d (str ''title'') = Some n"
    "int_field d (str ''duration'') = Some m" "dicts_field d (str ''questions'') = Some qs"
    "str_field d (str ''createdAt'') = Some c"
    and r: "r = JObj [(str ''id'', JStr i), (str ''title'', JStr n), (str ''duration'', JInt m),
                      (str ''questions'', JArr qs), (str ''createdAt'', JStr c)]"
    by (auto simp: exact_Test_def split: option.splits)
  from f(5) have c: "map_of d (str ''createdAt'') = Some (JStr c)"
    by (auto simp: str_field_def split: option.splits json.splits)
  from c t show "string_keyed t"
    by (simp add: string_keyed_def)
  from c t r show "createdAt_key r = createdAt_key t"
    by (simp add: createdAt_key_def str_def)
  have "map_of d (str ''id'') \<noteq> None" "map_of d (str ''title'') \<noteq> None"
    "map_of d (str ''duration'') \<noteq> None" "map_of d (str ''questions'') \<noteq> None"
    using f by (auto simp: str_field_def int_field_def dicts_field_def split: option.splits)
  with c have "list_all (\<lambda>key. map_of d key \<noteq> None) Test_fields"
    by (simp add: Test_fields_def)
  with assms t show "response_Test env t = Some r"
    by (simp add: response_Test_def)
qed

lemma stored_Test_of:
  assumes "stored_Test t"
  shows "string_keyed t" and "createdAt_key (Test_of t) = createdAt_key t"
    and "response_Test env t = Some (Test_of t)"
proof -
  from assms obtain r where r: "exact_Test t = Some r"
    by (auto simp: stored_Test_def)
  then have "Test_of t = r"
    by (simp add: Test_of_def)
  with exact_Test_Some(1) [OF r] exact_Test_Some(2) [OF r] exact_Test_Some(3) [OF r, of env]
  show "string_keyed t"
    and "createdAt_key (Test_of t) = createdAt_key t"
    and "response_Test env t = Some (Test_of t)"
    by simp_all
qed

lemma response_items_stored:
  "list_all stored_Test ts \<Longrightarrow> response_items env ts = Some (map Test_of ts)"
  by (induction ts) (simp_all add: stored_Test_of)

lemma response_items_rejects:
  "t \<in> set ts \<Longrightarrow> response_Test env t = None \<Longrightarrow> response_items env ts = None"
  by (induction ts) (auto split: option.splits)

lemma lacks_createdAt_rejected: "lacks_createdAt t \<Longrightarrow> response_Test env t = None"
  by (cases t) (simp_all add: lacks_createdAt_def response_Test_def Test_fields_def)

lemma Test_of_Test_dict: "exact_Test (Test_dict test) = Some (Test_dict test)"
  by (simp add: exact_Test_def Test_dict_def str_field_def int_field_def dicts_field_def
      list_all_iff str_def)

lemma get_all_tests_stored:
  assumes "load_tests_from_db w = Inr (JArr ts)" and "list_all stored_Test ts"
  shows "get_all_tests env w = Inr (JArr (map Test_of (rev (isort [] (rev ts)))))"
proof -
  let ?out = "rev (isort [] (rev ts))"
  have k: "list_all string_keyed ts"
    using assms(2) by (simp add: list_all_iff stored_Test_of)
  have r: "get_all_tests_returns w = Inr (JArr ?out)"
    using assms(1) k by (rule get_all_tests_returns_strings)
  have "set ?out = set ts"
    using mset_isort [of "[]" "rev ts"] by (metis mset_rev set_mset_mset add_0 mset.simps(1))
  then have "list_all stored_Test ?out"
    using assms(2) by (simp add: list_all_iff)
  then have "response_items env ?out = Some (map Test_of ?out)"
    by (rule response_items_stored)
  with r show ?thesis
    by (simp add: get_all_tests_def response_model_List_Test_def)
qed

lemma stored_body_sorted:
  assumes "list_all stored_Test ts"
  shows "mset (map Test_of (rev (isort [] (rev ts)))) = mset (map Test_of ts)"
    and "sorted_wrt (\<lambda>a b. createdAt_key b \<le> createdAt_key a) (map Test_of (rev (isort [] (rev ts))))"
    and "filter (\<lambda>r. createdAt_key r = k) (map Test_of (rev (isort [] (rev ts)))) =
         filter (\<lambda>r. createdAt_key r = k) (map Test_of ts)"
proof -
  let ?out = "rev (isort [] (rev ts))"
  have m: "mset ?out = mset ts"
    by (simp add: mset_isort)
  then show "mset (map Test_of ?out) = mset (map Test_of ts)"
    by (metis mset_map)
  have s: "set ?out = set ts"
    using m by (metis set_mset_mset)
  have key: "createdAt_key (Test_of t) = createdAt_key t" if "t \<in> set ts" for t
    using that assms by (simp add: list_all_iff stored_Test_of)
  have key': "createdAt_key (Test_of t) = createdAt_key t" if "t \<in> set ?out" for t
    using that s key by blast
  have "sorted_wrt (\<lambda>a b. createdAt_key b \<le> createdAt_key a) ?out"
    by (rule descending_rev_isort)
  then have "sorted_wrt (\<lambda>a b. createdAt_key (Test_of b) \<le> createdAt_key (Test_of a)) ?out"
  proof (rule sorted_wrt_mono_rel [rotated])
    fix x y
    assume "x \<in> set ?out" and "y \<in> set ?out" and "createdAt_key y \<le> createdAt_key x"
    then show "createdAt_key (Test_of y) \<le> createdAt_key (Test_of x)"
      using key' by simp
  qed
  then show "sorted_wrt (\<lambda>a b. createdAt_key b \<le> createdAt_key a) (map Test_of ?out)"
    by (simp add: sorted_wrt_map)
  have a: "filter (\<lambda>t. createdAt_key (Test_of t) = k) ?out = filter (\<lambda>t. createdAt_key t = k) ?out"
    using key' by (intro filter_cong) auto
  have b: "filter (\<lambda>t. createdAt_key (Test_of t) = k) ts = filter (\<lambda>t. createdAt_key t = k) ts"
    using key by (intro filter_cong) auto
  show "filter (\<lambda>r. createdAt_key r = k) (map Test_of ?out) =
        filter (\<lambda>r. createdAt_key r = k) (map Test_of ts)"
    using a b stable_rev_isort [of k ts] by (simp add: filter_map comp_def)
qed

text \<open>
  C4 (as amended). When the file holds a list of records that each have the five fields
  of \<^verbatim>\<open>Test\<close> with their declared types, \<^verbatim>\<open>GET /api/tests\<close> answers with these records, as the
  response model presents them, ordered so that \<^verbatim>\<open>createdAt\<close> never increases under the
  lexicographic order of strings, and records with equal \<^verbatim>\<open>createdAt\<close> keep their stored
  order. When the file holds a list of records whose \<^verbatim>\<open>createdAt\<close>, where present, is a
  string, and some record has no \<^verbatim>\<open>createdAt\<close>: the function sorts that record with the
  empty string as key, so that only records with the empty key come after it, but the
  response model rejects the list and the answer is 500.
\<close>

theorem get_tests_sorted_or_rejected:
  assumes "load_tests_from_db w = Inr (JArr ts)"
  shows "(list_all stored_Test ts \<longrightarrow>
            (\<exists>body. get_all_tests env w = Inr (JArr body) \<and>
               mset body = mset (map Test_of ts) \<and>
               sorted_wrt (\<lambda>a b. createdAt_key b \<le> createdAt_key a) body \<and>
               (\<forall>k. filter (\<lambda>r. createdAt_key r = k) body =
                    filter (\<lambda>r. createdAt_key r = k) (map Test_of ts)))) \<and>
         (list_all string_keyed ts \<and> (\<exists>t \<in> set ts. lacks_createdAt t) \<longrightarrow>
            get_all_tests env w = Inl ResponseValidationError \<and>
            http_status (get_all_tests env w) = 500 \<and>
            (\<exists>out. get_all_tests_returns w = Inr (JArr out) \<and>
               mset out = mset ts \<and>
               sorted_wrt (\<lambda>a b. createdAt_key b \<le> createdAt_key a) out \<and>
               (\<forall>i j. i < j \<and> j < length out \<and> lacks_createdAt (out ! i) \<longrightarrow>
                      createdAt_key (out ! i) = [] \<and> createdAt_key (out ! j) = [])))"
proof (intro conjI impI)
  assume s: "list_all stored_Test ts"
  let ?body = "map Test_of (rev (isort [] (rev ts)))"
  have "get_all_tests env w = Inr (JArr ?body)"
    using assms s by (rule get_all_tests_stored)
  moreover have "mset ?body = mset (map Test_of ts)"
    using s by (rule stored_body_sorted)
  moreover have "sorted_wrt (\<lambda>a b. createdAt_key b \<le> createdAt_key a) ?body"
    using s by (rule stored_body_sorted)
  moreover have "\<forall>k. filter (\<lambda>r. createdAt_key r = k) ?body =
                     filter (\<lambda>r. createdAt_key r = k) (map Test_of ts)"
    using stored_body_sorted(3) [OF s] by blast
  ultimately show "\<exists>body. get_all_tests env w = Inr (JArr body) \<and>
               mset body = mset (map Test_of ts) \<and>
               sorted_wrt (\<lambda>a b. createdAt_key b \<le> createdAt_key a) body \<and>
               (\<forall>k. filter (\<lambda>r. createdAt_key r = k) body =
                    filter (\<lambda>r. createdAt_key r = k) (map Test_of ts))"
    by blast
next
  assume a: "list_all string_keyed ts \<and> (\<exists>t \<in> set ts. lacks_createdAt t)"
  then obtain t where t: "t \<in> set ts" "lacks_createdAt t"
    by blast
  from get_all_tests_returns_sorted [OF assms] a
  obtain out where o: "get_all_tests_returns w = Inr (JArr out)" "mset out = mset ts"
    "sorted_wrt (\<lambda>a b. createdAt_key b \<le> createdAt_key a) out"
    "\<forall>i j. i < j \<and> j < length out \<and> lacks_createdAt (out ! i) \<longrightarrow>
           createdAt_key (out ! i) = [] \<and> createdAt_key (out ! j) = []"
    by blast
  from o(2) t(1) have "t \<in> set out"
    by (metis set_mset_mset)
  then have "response_items env out = None"
    using lacks_createdAt_rejected [OF t(2)] by (rule response_items_rejects)
  with o(1) show g: "get_all_tests env w = Inl ResponseValidationError"
    by (simp add: get_all_tests_def response_model_List_Test_def)
  then show "http_status (get_all_tests env w) = 500"
    by simp
  from o show "\<exists>out. get_all_tests_returns w = Inr (JArr out) \<and>
               mset out = mset ts \<and>
               sorted_wrt (\<lambda>a b. createdAt_key b \<le> createdAt_key a) out \<and>
               (\<forall>i j. i < j \<and> j < length out \<and> lacks_createdAt (out ! i) \<longrightarrow>
                      createdAt_key (out ! i) = [] \<and> createdAt_key (out ! j) = [])"
    by blast
qed

lemma sample_record_stored: "stored_Test (sample_record i t c)"
  by (simp add: stored_Test_def exact_Test_def sample_record_def str_field_def int_field_def
      dicts_field_def str_def)

lemma sample_record_Test_of: "Test_of (sample_record i t c) = sample_record i t c"
  by (simp add: Test_of_def exact_Test_def sample_record_def str_field_def int_field_def
      dicts_field_def str_def)

lemma sample_tests_string_keyed: "list_all string_keyed sample_tests"
  by (simp add: sample_tests_def sample_record_def undated_record_def string_keyed_def str_def)

lemma sample_tests_returned:
  "get_all_tests_returns (holding sample_tests) =
     Inr (JArr [sample_record ''b'' ''Second'' ''2024-03-01'',
                sample_record ''a'' ''First'' ''2024-01-02'',
                sample_record ''c'' ''Third'' ''2024-01-02'',
                undated_record])"
  by (simp add: get_all_tests_returns_def load_tests_from_db_def holding_def sample_tests_def
      sort_newest_first_def sample_record_def undated_record_def str_def)

lemma dated_tests_returned:
  "get_all_tests_returns (holding dated_tests) =
     Inr (JArr [sample_record ''b'' ''Second'' ''2024-03-01'',
                sample_record ''a'' ''First'' ''2024-01-02'',
                sample_record ''c'' ''Third'' ''2024-01-02''])"
  by (simp add: get_all_tests_returns_def load_tests_from_db_def holding_def dated_tests_def
      sort_newest_first_def sample_record_def str_def)

lemma dated_tests_answered:
  "get_all_tests shipped_env (holding dated_tests) =
     Inr (JArr [sample_record ''b'' ''Second'' ''2024-03-01'',
                sample_record ''a'' ''First'' ''2024-01-02'',
                sample_record ''c'' ''Third'' ''2024-01-02''])"
  using stored_Test_of(3) [OF sample_record_stored, of shipped_env]
  by (simp add: get_all_tests_def dated_tests_returned response_model_List_Test_def
      sample_record_Test_of)

theorem get_tests_sorted_or_rejected_witness:
  "load_tests_from_db (holding dated_tests) = Inr (JArr dated_tests) \<and>
   list_all stored_Test dated_tests \<and>
   (\<exists>body. get_all_tests shipped_env (holding dated_tests) = Inr (JArr body) \<and>
      body = [sample_record ''b'' ''Second'' ''2024-03-01'',
              sample_record ''a'' ''First'' ''2024-01-02'',
              sample_record ''c'' ''Third'' ''2024-01-02''] \<and>
      mset body = mset (map Test_of dated_tests) \<and>
      sorted_wrt (\<lambda>a b. createdAt_key b \<le> createdAt_key a) body) \<and>
   load_tests_from_db (holding sample_tests) = Inr (JArr sample_tests) \<and>
   list_all string_keyed sample_tests \<and>
   lacks_createdAt (sample_tests ! 1) \<and>
   get_all_tests shipped_env (holding sample_tests) = Inl ResponseValidationError"
proof -
  have l: "load_tests_from_db (holding dated_tests) = Inr (JArr dated_tests)"
    by (simp add: load_tests_from_db_def holding_def)
  have s: "list_all stored_Test dated_tests"
    by (simp add: dated_tests_def sample_record_stored)
  have l': "load_tests_from_db (holding sample_tests) = Inr (JArr sample_tests)"
    by (simp add: load_tests_from_db_def holding_def)
  have u: "lacks_createdAt (sample_tests ! 1)"
    by (simp add: sample_tests_def undated_record_def lacks_createdAt_def str_def)
  have m: "\<exists>t \<in> set sample_tests. lacks_createdAt t"
    using u by (auto simp: sample_tests_def)
  from get_tests_sorted_or_rejected [OF l, of shipped_env] s
  obtain body where b: "get_all_tests shipped_env (holding dated_tests) = Inr (JArr body)"
    "mset body = mset (map Test_of dated_tests)"
    "sorted_wrt (\<lambda>a b. createdAt_key b \<le> createdAt_key a) body"
    by blast
  from b(1) have e: "body = [sample_record ''b'' ''Second'' ''2024-03-01'',
              sample_record ''a'' ''First'' ''2024-01-02'',
              sample_record ''c'' ''Third'' ''2024-01-02'']"
    by (simp add: dated_tests_answered)
  from get_tests_sorted_or_rejected [OF l', of shipped_env] sample_tests_string_keyed m
  have r: "get_all_tests shipped_env (holding sample_tests) = Inl ResponseValidationError"
    by blast
  from l s b e l' sample_tests_string_keyed u r show ?thesis
    by blast
qed

text \<open>
  The claim as stated fails on a store with a record that has no \<^verbatim>\<open>createdAt\<close>: the function
  sorts it last, but \<^verbatim>\<open>GET /api/tests\<close> does not return the sorted records: it answers 500.
\<close>

theorem undated_record_counterexample:
  "lacks_createdAt undated_record \<and>
   get_all_tests_returns (holding sample_tests) =
     Inr (JArr [sample_record ''b'' ''Second'' ''2024-03-01'',
                sample_record ''a'' ''First'' ''2024-01-02'',
                sample_record ''c'' ''Third'' ''2024-01-02'',
                undated_record]) \<and>
   get_all_tests shipped_env (holding sample_tests) = Inl ResponseValidationError \<and>
   http_status (get_all_tests shipped_env (holding sample_tests)) = 500"
proof -
  have u: "lacks_createdAt undated_record"
    by (simp add: undated_record_def lacks_createdAt_def str_def)
  have "response_items shipped_env
          [sample_record ''b'' ''Second'' ''2024-03-01'',
           sample_record ''a'' ''First'' ''2024-01-02'',
           sample_record ''c'' ''Third'' ''2024-01-02'',
           undated_record] = None"
    using lacks_createdAt_rejected [OF u, of shipped_env]
    by (simp split: option.splits)
  then have "get_all_tests shipped_env (holding sample_tests) = Inl ResponseValidationError"
    by (simp add: get_all_tests_def sample_tests_returned response_model_List_Test_def)
  with u sample_tests_returned show ?thesis
    by simp
qed

subsection \<open>\<^verbatim>\<open>POST /api/tests\<close>\<close>

lemma save_new_test_written:
  assumes "load_tests_from_db w = Inr (JArr ts)"
  shows "save_new_test Written test w =
           (Inr (JObj [(str ''status'', JStr (str ''success'')), (str ''test_id'', JStr (id' test))]),
            w\<lparr>DB_FILE := Holds (JArr (ts @ [Test_dict test]))\<rparr>)"
  using assms by (simp add: save_new_test_def save_tests_to_db_def)

lemma stored_Test_dict: "stored_Test (Test_dict test)"
  by (simp add: stored_Test_def Test_of_Test_dict)

lemma Test_of_dict: "Test_of (Test_dict test) = Test_dict test"
  by (simp add: Test_of_def Test_of_Test_dict)

lemma count_list_mset: "mset xs = mset ys \<Longrightarrow> count_list xs x = count_list ys x"
  by (metis count_mset)

text \<open>
  C5 (as amended). When the file holds a list of records that each have the five fields
  of \<^verbatim>\<open>Test\<close> with their declared types, and the write succeeds, \<^verbatim>\<open>POST /api/tests\<close> with a
  test answers success, and the list \<^verbatim>\<open>GET /api/tests\<close> then answers with holds the test's
  record once more than the stored records, as the response model presents them, held it
  before: exactly once when none of them was equal to it.
\<close>

theorem post_then_get_one_more:
  assumes "load_tests_from_db w = Inr (JArr ts)" and "list_all stored_Test ts"
  shows "fst (save_new_test Written test w) =
           Inr (JObj [(str ''status'', JStr (str ''success'')), (str ''test_id'', JStr (id' test))]) \<and>
         (\<exists>body. get_all_tests env (snd (save_new_test Written test w)) = Inr (JArr body) \<and>
            count_list body (Test_dict test) =
              count_list (map Test_of ts) (Test_dict test) + 1)"
proof -
  let ?w = "w\<lparr>DB_FILE := Holds (JArr (ts @ [Test_dict test]))\<rparr>"
  let ?body = "map Test_of (rev (isort [] (rev (ts @ [Test_dict test]))))"
  have s: "save_new_test Written test w =
           (Inr (JObj [(str ''status'', JStr (str ''success'')), (str ''test_id'', JStr (id' test))]), ?w)"
    using assms(1) by (rule save_new_test_written)
  have l: "load_tests_from_db ?w = Inr (JArr (ts @ [Test_dict test]))"
    by (simp add: load_tests_from_db_def)
  have k: "list_all stored_Test (ts @ [Test_dict test])"
    using assms(2) stored_Test_dict by simp
  have g: "get_all_tests env ?w = Inr (JArr ?body)"
    using l k by (rule get_all_tests_stored)
  have "mset ?body = mset (map Test_of (ts @ [Test_dict test]))"
    using k by (rule stored_body_sorted)
  then have "count_list ?body (Test_dict test) =
             count_list (map Test_of (ts @ [Test_dict test])) (Test_dict test)"
    by (rule count_list_mset)
  then have "count_list ?body (Test_dict test) = count_list (map Test_of ts) (Test_dict test) + 1"
    by (simp add: Test_of_dict)
  with s g show ?thesis by simp
qed

lemma sample_test_dict: "Test_dict sample_test = sample_record ''a'' ''First'' ''2024-01-02''"
  by (simp add: Test_dict_def sample_test_def sample_record_def)

theorem post_then_get_one_more_witness:
  "load_tests_from_db (holding [sample_record ''b'' ''Second'' ''2024-03-01'']) =
     Inr (JArr [sample_record ''b'' ''Second'' ''2024-03-01'']) \<and>
   list_all stored_Test [sample_record ''b'' ''Second'' ''2024-03-01''] \<and>
   fst (save_new_test Written sample_test (holding [sample_record ''b'' ''Second'' ''2024-03-01''])) =
     Inr (JObj [(str ''status'', JStr (str ''success'')), (str ''test_id'', JStr (str ''a''))]) \<and>
   (\<exists>body. get_all_tests shipped_env
             (snd (save_new_test Written sample_test
                     (holding [sample_record ''b'' ''Second'' ''2024-03-01'']))) = Inr (JArr body) \<and>
      count_list body (Test_dict sample_test) = 1)"
proof -
  have l: "load_tests_from_db (holding [sample_record ''b'' ''Second'' ''2024-03-01'']) =
     Inr (JArr [sample_record ''b'' ''Second'' ''2024-03-01''])"
    by (simp add: load_tests_from_db_def holding_def)
  have k: "list_all stored_Test [sample_record ''b'' ''Second'' ''2024-03-01'']"
    by (simp add: sample_record_stored)
  have i: "id' sample_test = str ''a''"
    by (simp add: sample_test_def)
  have n: "sample_record ''b'' ''Second'' ''2024-03-01'' \<noteq> Test_dict sample_test"
    by (simp add: sample_test_dict sample_record_def str_def)
  from post_then_get_one_more [OF l k, of sample_test shipped_env] l k i n show ?thesis
    by (simp add: sample_record_Test_of)
qed

text \<open>
  The claim as stated fails when the file already holds the record: after a second
  \<^verbatim>\<open>POST\<close> of the same test, \<^verbatim>\<open>GET\<close> returns it twice. It also fails when the file holds a
  record without \<^verbatim>\<open>createdAt\<close>: the \<^verbatim>\<open>POST\<close> succeeds and the \<^verbatim>\<open>GET\<close> answers 500.
\<close>

theorem post_then_get_exactly_one_counterexample:
  "get_all_tests shipped_env
     (snd (save_new_test Written sample_test
             (snd (save_new_test Written sample_test fresh_world)))) =
     Inr (JArr [Test_dict sample_test, Test_dict sample_test]) \<and>
   count_list [Test_dict sample_test, Test_dict sample_test] (Test_dict sample_test) = 2 \<and>
   fst (save_new_test Written sample_test (holding [undated_record])) =
     Inr (JObj [(str ''status'', JStr (str ''success'')), (str ''test_id'', JStr (str ''a''))]) \<and>
   get_all_tests shipped_env (snd (save_new_test Written sample_test (holding [undated_record]))) =
     Inl ResponseValidationError"
proof -
  have r: "response_Test shipped_env (sample_record ''a'' ''First'' ''2024-01-02'') =
           Some (sample_record ''a'' ''First'' ''2024-01-02'')"
    using stored_Test_of(3) [OF sample_record_stored, of shipped_env]
    by (simp add: sample_record_Test_of)
  have u: "response_Test shipped_env undated_record = None"
    by (rule lacks_createdAt_rejected)
      (simp add: undated_record_def lacks_createdAt_def str_def)
  have a: "get_all_tests_returns
     (snd (save_new_test Written sample_test
             (snd (save_new_test Written sample_test fresh_world)))) =
     Inr (JArr [sample_record ''a'' ''First'' ''2024-01-02'',
                sample_record ''a'' ''First'' ''2024-01-02''])"
    by (simp add: save_new_test_def save_tests_to_db_def load_tests_from_db_def fresh_world_def
        get_all_tests_returns_def sort_newest_first_def sample_test_dict sample_record_def str_def)
  have b: "get_all_tests_returns (snd (save_new_test Written sample_test (holding [undated_record]))) =
     Inr (JArr [sample_record ''a'' ''First'' ''2024-01-02'', undated_record])"
    by (simp add: save_new_test_def save_tests_to_db_def load_tests_from_db_def holding_def
        get_all_tests_returns_def sort_newest_first_def sample_test_dict sample_record_def
        undated_record_def str_def)
  have c: "fst (save_new_test Written sample_test (holding [undated_record])) =
     Inr (JObj [(str ''status'', JStr (str ''success'')), (str ''test_id'', JStr (str ''a''))])"
    by (simp add: save_new_test_def save_tests_to_db_def load_tests_from_db_def holding_def
        sample_test_def)
  from a b c r u show ?thesis
    by (simp add: get_all_tests_def response_model_List_Test_def sample_test_dict)
qed



subsection \<open>\<^verbatim>\<open>DELETE /api/tests/{test_id}\<close>\<close>

lemma other_ids_objects:
  "list_all is_object ts \<Longrightarrow> other_ids test_id ts = Inr (filter (\<lambda>t. \<not> has_id test_id t) ts)"
proof (induction ts)
  case Nil
  then show ?case by simp
next
  case (Cons t ts)
  then obtain d where "t = JObj d"
    by (cases t) simp_all
  with Cons show ?case
    by (simp add: has_id_def)
qed

lemma filter_keeps_length: "length (filter P xs) = length xs \<longleftrightarrow> (\<forall>x \<in> set xs. P x)"
  by (metis filter_id_conv length_filter_less less_irrefl)

text \<open>
  C1 (as amended). When the file holds a list of records: if some record has the given
  id and the write succeeds, \<^verbatim>\<open>DELETE\<close> answers success and the file then holds the stored
  list without the records that have this id (all of them), every other record as it was
  and in its place; if no record has the id, the answer is 404 and nothing is written,
  whatever a write would have done.
\<close>

theorem delete_removes_every_match:
  assumes "load_tests_from_db w = Inr (JArr ts)" and "list_all is_object ts"
  shows "((\<exists>t \<in> set ts. has_id test_id t) \<longrightarrow>
            delete_a_test Written test_id w =
              (Inr (JObj [(str ''status'', JStr (str ''success'')),
                          (str ''deleted_id'', JStr test_id)]),
               w\<lparr>DB_FILE := Holds (JArr (filter (\<lambda>t. \<not> has_id test_id t) ts))\<rparr>)) \<and>
         (\<not> (\<exists>t \<in> set ts. has_id test_id t) \<longrightarrow>
            delete_a_test io test_id w = (Inl (HTTPException 404 (str ''Test not found'')), w) \<and>
            http_status (fst (delete_a_test io test_id w)) = 404)"
proof -
  have o: "other_ids test_id ts = Inr (filter (\<lambda>t. \<not> has_id test_id t) ts)"
    using assms(2) by (rule other_ids_objects)
  have l: "length (filter (\<lambda>t. \<not> has_id test_id t) ts) = length ts \<longleftrightarrow>
           \<not> (\<exists>t \<in> set ts. has_id test_id t)"
    by (simp add: filter_keeps_length)
  show ?thesis
    using assms(1) o l by (auto simp: delete_a_test_def save_tests_to_db_def)
qed

theorem delete_removes_every_match_witness:
  "load_tests_from_db (holding sample_tests) = Inr (JArr sample_tests) \<and>
   list_all is_object sample_tests \<and>
   delete_a_test Written (str ''b'') (holding sample_tests) =
     (Inr (JObj [(str ''status'', JStr (str ''success'')), (str ''deleted_id'', JStr (str ''b''))]),
      holding [sample_record ''a'' ''First'' ''2024-01-02'', undated_record,
               sample_record ''c'' ''Third'' ''2024-01-02'']) \<and>
   delete_a_test (WriteFails (str ''disk full'') Unreadable) (str ''z'') (holding sample_tests) =
     (Inl (HTTPException 404 (str ''Test not found'')), holding sample_tests)"
proof -
  have l: "load_tests_from_db (holding sample_tests) = Inr (JArr sample_tests)"
    by (simp add: load_tests_from_db_def holding_def)
  have k: "list_all is_object sample_tests"
    by (simp add: sample_tests_def sample_record_def undated_record_def)
  have b: "\<exists>t \<in> set sample_tests. has_id (str ''b'') t"
    by (simp add: sample_tests_def sample_record_def undated_record_def has_id_def str_def)
  have z: "\<not> (\<exists>t \<in> set sample_tests. has_id (str ''z'') t)"
    by (simp add: sample_tests_def sample_record_def undated_record_def has_id_def str_def)
  have f: "filter (\<lambda>t. \<not> has_id (str ''b'') t) sample_tests =
           [sample_record ''a'' ''First'' ''2024-01-02'', undated_record,
            sample_record ''c'' ''Third'' ''2024-01-02'']"
    by (simp add: sample_tests_def sample_record_def undated_record_def has_id_def str_def)
  from delete_removes_every_match [OF l k, of "str ''b''" "WriteFails (str ''disk full'') Unreadable"]
    delete_removes_every_match [OF l k, of "str ''z''" "WriteFails (str ''disk full'') Unreadable"]
    b z f l k
  show ?thesis
    by (simp add: holding_def)
qed

text \<open>
  The claim as stated fails when two records share the id: \<^verbatim>\<open>DELETE\<close> removes both, not
  exactly one.
\<close>

theorem delete_exactly_one_counterexample:
  "length twin_tests = 2 \<and>
   has_id (str ''a'') (twin_tests ! 0) \<and>
   has_id (str ''a'') (twin_tests ! 1) \<and>
   twin_tests ! 0 \<noteq> twin_tests ! 1 \<and>
   delete_a_test Written (str ''a'') (holding twin_tests) =
     (Inr (JObj [(str ''status'', JStr (str ''success'')), (str ''deleted_id'', JStr (str ''a''))]),
      holding [])"
  by (simp add: delete_a_test_def load_tests_from_db_def holding_def twin_tests_def
      save_tests_to_db_def sample_record_def has_id_def str_def)

section \<open>Properties of the Gemini helper\<close>

text \<open>
  C6. With no key configured (\<^verbatim>\<open>API_KEY\<close> empty, or still the placeholder), every call of
  \<open>call_gemini_api\<close> raises \<open>HTTPException\<close> 500 and leaves the world as it was: nothing is
  posted to the provider and nothing is printed.
\<close>

theorem missing_key_rejected_before_network:
  assumes "API_KEY env = [] \<or> API_KEY env = str ''YOUR_API_KEY_HERE''"
  shows "call_gemini_api env payload w =
           (Inl (HTTPException 500 (str ''Google AI API Key is not set in main.py.'')), w) \<and>
         http_status (fst (call_gemini_api env payload w)) = 500 \<and>
         posted (snd (call_gemini_api env payload w)) = posted w"
  using assms by (auto simp: call_gemini_api_def)

theorem missing_key_rejected_before_network_witness:
  "API_KEY shipped_env = [] \<and>
   call_gemini_api shipped_env JNull fresh_world =
     (Inl (HTTPException 500 (str ''Google AI API Key is not set in main.py.'')), fresh_world) \<and>
   posted (snd (call_gemini_api shipped_env JNull fresh_world)) = []"
proof -
  have k: "API_KEY shipped_env = []"
    by (simp add: shipped_env_def)
  then have "API_KEY shipped_env = [] \<or> API_KEY shipped_env = str ''YOUR_API_KEY_HERE''"
    by simp
  from missing_key_rejected_before_network [OF this, of JNull fresh_world] k
  show ?thesis
    by (simp add: fresh_world_def)
qed

lemma key_set_posts_once:
  assumes "API_KEY env \<noteq> []" and "API_KEY env \<noteq> str ''YOUR_API_KEY_HERE''"
  shows "posted (snd (call_gemini_api env payload w)) = posted w @ [payload]"
  using assms
  by (simp add: call_gemini_api_def Let_def split: net_outcome.splits sum.splits option.splits)

text \<open>Misses that the \<^verbatim>\<open>except\<close> clause catches: a missing key, an empty list of
  candidates, a text that \<^verbatim>\<open>json.loads\<close> rejects.\<close>

lemma missing_candidates_key:
  "map_of d (str ''candidates'') = None \<Longrightarrow>
   extract_json env (JObj d) = Inl (KeyError (JStr (str ''candidates''))) \<and>
   caught (KeyError (JStr (str ''candidates'')))"
  by (simp add: extract_json_def)

lemma empty_candidates_list:
  "map_of d (str ''candidates'') = Some (JArr []) \<Longrightarrow>
   extract_json env (JObj d) = Inl (IndexError (str ''list index out of range'')) \<and>
   caught (IndexError (str ''list index out of range''))"
  by (simp add: extract_json_def seq_index_def)

lemma text_not_json:
  "py_path result
     [JStr (str ''candidates''), JInt 0, JStr (str ''content''),
      JStr (str ''parts''), JInt 0, JStr (str ''text'')] = Inr (JStr s) \<Longrightarrow>
   json_loads env s = Inl msg \<Longrightarrow>
   extract_json env result = Inl (JSONDecodeError msg) \<and> caught (JSONDecodeError msg)"
  by (simp add: extract_json_def)

text \<open>
  C7 (as amended). With a key configured, a 200 response whose body is JSON and is not
  blocked: when extracting and parsing \<^verbatim>\<open>candidates[0].content.parts[0].text\<close> raises
  \<open>KeyError\<close>, \<open>IndexError\<close> or \<open>JSONDecodeError\<close>, the call raises \<open>HTTPException\<close> 500 whose
  detail is \<^verbatim>\<open>Invalid response structure from AI: \<close> followed by the text of that
  exception. The envelope is not part of the exception: it is printed, once after the
  response arrived and once more by the handler of the failure.
\<close>

theorem malformed_envelope_500_and_printed:
  assumes "API_KEY env \<noteq> []" and "API_KEY env \<noteq> str ''YOUR_API_KEY_HERE''"
    and "requests_post env payload = Responds r"
    and "status_code r = 200" and "body_json r = Inr result"
    and "block_reason result = Inr None"
    and "extract_json env result = Inl e" and "caught e"
  shows "call_gemini_api env payload w =
           (Inl (HTTPException 500
                   (str ''Invalid response structure from AI: '' @ exc_str (py_repr env) e)),
            w\<lparr>posted := posted w @ [payload],
              stdout := stdout w @
                 [[JStr (str ''Gemini API raw response:''), result],
                  [JStr (str ''Error parsing Gemini response:''), result]]\<rparr>) \<and>
         http_status (fst (call_gemini_api env payload w)) = 500"
  using assms by (simp add: call_gemini_api_def Let_def)

lemma no_candidates_extract:
  "extract_json (keyed_env no_candidates) no_candidates =
     Inl (IndexError (str ''list index out of range''))"
  by (simp add: extract_json_def no_candidates_def seq_index_def str_def)

lemma no_candidates_unblocked: "block_reason no_candidates = Inr None"
  by (simp add: block_reason_def no_candidates_def str_def)

theorem malformed_envelope_500_and_printed_witness:
  "API_KEY (keyed_env no_candidates) \<noteq> [] \<and>
   API_KEY (keyed_env no_candidates) \<noteq> str ''YOUR_API_KEY_HERE'' \<and>
   block_reason no_candidates = Inr None \<and>
   extract_json (keyed_env no_candidates) no_candidates =
     Inl (IndexError (str ''list index out of range'')) \<and>
   caught (IndexError (str ''list index out of range'')) \<and>
   call_gemini_api (keyed_env no_candidates) JNull fresh_world =
     (Inl (HTTPException 500
             (str ''Invalid response structure from AI: list index out of range'')),
      \<lparr>DB_FILE = Missing,
       stdout = [[JStr (str ''Gemini API raw response:''), no_candidates],
                 [JStr (str ''Error parsing Gemini response:''), no_candidates]],
       posted = [JNull]\<rparr>)"
proof -
  have k: "API_KEY (keyed_env no_candidates) \<noteq> []"
    "API_KEY (keyed_env no_candidates) \<noteq> str ''YOUR_API_KEY_HERE''"
    by (simp_all add: keyed_env_def str_def)
  have p: "requests_post (keyed_env no_candidates) JNull =
           Responds \<lparr>status_code = 200, text_of = [], body_json = Inr no_candidates\<rparr>"
    by (simp add: keyed_env_def answering_def)
  have c: "caught (IndexError (str ''list index out of range''))"
    by simp
  from malformed_envelope_500_and_printed [OF k p _ _ no_candidates_unblocked
      no_candidates_extract c, of fresh_world]
  have "call_gemini_api (keyed_env no_candidates) JNull fresh_world =
     (Inl (HTTPException 500
             (str ''Invalid response structure from AI: '' @
              exc_str (py_repr (keyed_env no_candidates)) (IndexError (str ''list index out of range'')))),
      fresh_world\<lparr>posted := posted fresh_world @ [JNull],
         stdout := stdout fresh_world @
            [[JStr (str ''Gemini API raw response:''), no_candidates],
             [JStr (str ''Error parsing Gemini response:''), no_candidates]]\<rparr>)"
    by simp
  then show ?thesis
    using k no_candidates_unblocked no_candidates_extract c
    by (simp add: fresh_world_def str_def)
qed

text \<open>
  The claim as stated fails: the exception does not include the envelope. Two different
  envelopes that fail in the same way raise the same \<open>HTTPException\<close>.
\<close>

theorem error_omits_envelope_counterexample:
  "no_candidates \<noteq> no_candidates_with_usage \<and>
   fst (call_gemini_api (keyed_env no_candidates) JNull fresh_world) =
     Inl (HTTPException 500 (str ''Invalid response structure from AI: list index out of range'')) \<and>
   fst (call_gemini_api (keyed_env no_candidates_with_usage) JNull fresh_world) =
     Inl (HTTPException 500 (str ''Invalid response structure from AI: list index out of range''))"
  by (simp add: call_gemini_api_def keyed_env_def answering_def block_reason_def extract_json_def
      no_candidates_def no_candidates_with_usage_def seq_index_def fresh_world_def str_def)

text \<open>
  Not every structural miss is caught: a subscription on a value of the wrong type raises
  \<open>TypeError\<close>, which the \<^verbatim>\<open>except\<close> clause does not list. With \<^verbatim>\<open>"candidates": "x"\<close> the
  \<open>TypeError\<close> leaves the function as it is (FastAPI still answers 500).
\<close>

lemma wrong_type_not_caught:
  "fst (call_gemini_api (keyed_env (JObj [(str ''candidates'', JStr (str ''x''))])) JNull fresh_world) =
     Inl TypeError"
  by (simp add: call_gemini_api_def keyed_env_def answering_def block_reason_def extract_json_def
      seq_index_def fresh_world_def str_def)

section \<open>Properties of the paper generation\<close>

subsection \<open>The prompt and the schema\<close>

lemma is_substring_append: "is_substring k (pre @ k @ post)"
proof (induction pre)
  case Nil
  show ?case
  proof (cases "k @ post")
    case Nil
    then show ?thesis by simp
  next
    case (Cons c s)
    have "take (length k) (k @ post) = k"
      by simp
    with Cons show ?thesis by simp
  qed
next
  case (Cons c pre)
  then show ?case by simp
qed

lemma generate_paper_posts:
  assumes "API_KEY env \<noteq> []" and "API_KEY env \<noteq> str ''YOUR_API_KEY_HERE''"
  shows "posted (snd (generate_paper env (JObj d) w)) =
           posted w @
           [gemini_payload
              (paper_prompt (py_repr env)
                 (case map_of d (str ''examName'') of None \<Rightarrow> JStr [] | Some v \<Rightarrow> v)
                 (case map_of d (str ''duration'') of None \<Rightarrow> JNull | Some v \<Rightarrow> v)
                 (case map_of d (str ''questionCount'') of None \<Rightarrow> JNull | Some v \<Rightarrow> v))
              paper_schema]"
proof -
  let ?payload = "gemini_payload
              (paper_prompt (py_repr env)
                 (case map_of d (str ''examName'') of None \<Rightarrow> JStr [] | Some v \<Rightarrow> v)
                 (case map_of d (str ''duration'') of None \<Rightarrow> JNull | Some v \<Rightarrow> v)
                 (case map_of d (str ''questionCount'') of None \<Rightarrow> JNull | Some v \<Rightarrow> v))
              paper_schema"
  obtain r w' where c: "call_gemini_api env ?payload w = (r, w')"
    by (cases "call_gemini_api env ?payload w")
  then have "posted w' = posted w @ [?payload]"
    using key_set_posts_once [OF assms, of ?payload w] by simp
  with c show ?thesis
    by (cases r) (simp_all add: generate_paper_def)
qed

text \<open>
  C8 (as amended). With a key configured, the request body posted to the provider for a
  \<^verbatim>\<open>generate-paper\<close> request carries a prompt in which: when \<^verbatim>\<open>questionCount\<close> is supplied
  with a value that counts as true, the override directive naming that value (as \<^verbatim>\<open>str\<close>
  prints it) occurs; when \<^verbatim>\<open>duration\<close> is supplied with a value that counts as true, the
  override naming that duration occurs. The schema posted is \<open>paper_schema\<close>, whose question
  items require exactly \<^verbatim>\<open>questionText\<close>, \<^verbatim>\<open>options\<close>, \<^verbatim>\<open>correctOptionIndex\<close> and \<^verbatim>\<open>explanation\<close>.
\<close>

theorem overrides_in_posted_prompt:
  assumes "API_KEY env \<noteq> []" and "API_KEY env \<noteq> str ''YOUR_API_KEY_HERE''"
  shows "\<exists>prompt.
           posted (snd (generate_paper env (JObj d) w)) =
             posted w @ [gemini_payload prompt paper_schema] \<and>
           (\<forall>n. map_of d (str ''questionCount'') = Some n \<and> truthy n \<longrightarrow>
                is_substring
                  (str ''2a. Override: Generate exactly '' @ py_str (py_repr env) n @
                   str '' questions, regardless of the official pattern.'') prompt) \<and>
           (\<forall>m. map_of d (str ''duration'') = Some m \<and> truthy m \<longrightarrow>
                is_substring
                  (str ''3a. Override: Set the test duration to exactly '' @ py_str (py_repr env) m @
                   str '' minutes.'') prompt) \<and>
           py_path paper_schema
             [JStr (str ''properties''), JStr (str ''questions''), JStr (str ''items''),
              JStr (str ''required'')] =
             Inr (JArr [JStr (str ''questionText''), JStr (str ''options''),
                        JStr (str ''correctOptionIndex''), JStr (str ''explanation'')])"
proof -
  let ?name = "case map_of d (str ''examName'') of None \<Rightarrow> JStr [] | Some v \<Rightarrow> v"
  let ?dur = "case map_of d (str ''duration'') of None \<Rightarrow> JNull | Some v \<Rightarrow> v"
  let ?cnt = "case map_of d (str ''questionCount'') of None \<Rightarrow> JNull | Some v \<Rightarrow> v"
  let ?prompt = "paper_prompt (py_repr env) ?name ?dur ?cnt"
  have p: "posted (snd (generate_paper env (JObj d) w)) =
           posted w @ [gemini_payload ?prompt paper_schema]"
    using assms by (rule generate_paper_posts)
  have c: "is_substring
             (str ''2a. Override: Generate exactly '' @ py_str (py_repr env) n @
              str '' questions, regardless of the official pattern.'') ?prompt"
    if "map_of d (str ''questionCount'') = Some n" and "truthy n" for n
  proof -
    let ?k = "str ''2a. Override: Generate exactly '' @ py_str (py_repr env) n @
              str '' questions, regardless of the official pattern.''"
    have "count_override (py_repr env) n = str ''\<newline>    '' @ ?k"
      by (simp add: count_override_def str_def)
    then have "?prompt =
        (prompt_intro @ py_str (py_repr env) ?name @ prompt_rules_1_2 @ str ''\<newline>    '') @ ?k @
        (prompt_rule_3 @ (if truthy ?dur then duration_override (py_repr env) ?dur else []) @
         prompt_rules_4_8)"
      using that by (simp add: paper_prompt_def)
    then show ?thesis
      using is_substring_append by metis
  qed
  have u: "is_substring
             (str ''3a. Override: Set the test duration to exactly '' @ py_str (py_repr env) m @
              str '' minutes.'') ?prompt"
    if "map_of d (str ''duration'') = Some m" and "truthy m" for m
  proof -
    let ?k = "str ''3a. Override: Set the test duration to exactly '' @ py_str (py_repr env) m @
              str '' minutes.''"
    have "duration_override (py_repr env) m = str ''\<newline>    '' @ ?k"
      by (simp add: duration_override_def str_def)
    then have "?prompt =
        (prompt_intro @ py_str (py_repr env) ?name @ prompt_rules_1_2 @
         (if truthy ?cnt then count_override (py_repr env) ?cnt else []) @ prompt_rule_3 @
         str ''\<newline>    '') @ ?k @ prompt_rules_4_8"
      using that by (simp add: paper_prompt_def)
    then show ?thesis
      using is_substring_append by metis
  qed
  have s: "py_path paper_schema
             [JStr (str ''properties''), JStr (str ''questions''), JStr (str ''items''),
              JStr (str ''required'')] =
             Inr (JArr [JStr (str ''questionText''), JStr (str ''options''),
                        JStr (str ''correctOptionIndex''), JStr (str ''explanation'')])"
    by (simp add: paper_schema_def str_def)
  from p c u s show ?thesis by blast
qed

lemma is_substring_set: "is_substring k s \<Longrightarrow> set k \<subseteq> set s"
proof (induction s)
  case Nil
  then show ?case by simp
next
  case (Cons c s)
  from Cons.prems have "take (length k) (c # s) = k \<or> is_substring k s"
    by simp
  then show ?case
  proof
    assume "take (length k) (c # s) = k"
    then have "set k = set (take (length k) (c # s))"
      by simp
    then show ?thesis
      using set_take_subset [of "length k" "c # s"] by simp
  next
    assume "is_substring k s"
    with Cons.IH show ?thesis by auto
  qed
qed

lemma no_zero_intro: "48 \<notin> set prompt_intro"
  by (simp add: prompt_intro_def str_def)

lemma no_zero_rules_1_2: "48 \<notin> set prompt_rules_1_2"
  by (simp add: prompt_rules_1_2_def str_def)

lemma no_zero_rule_3: "48 \<notin> set prompt_rule_3"
  by (simp add: prompt_rule_3_def str_def)

lemma no_zero_rules_4_8: "48 \<notin> set prompt_rules_4_8"
  by (simp add: prompt_rules_4_8_def str_def)

lemma zero_count_prompt:
  "paper_prompt no_repr (JStr (str ''Sample Exam'')) JNull (JInt 0) =
     prompt_intro @ str ''Sample Exam'' @ prompt_rules_1_2 @ prompt_rule_3 @ prompt_rules_4_8"
  by (simp add: paper_prompt_def)

text \<open>
  The claim as stated fails for a supplied count that does not count as true: with
  \<^verbatim>\<open>"questionCount": 0\<close> the prompt is the one without any override, and the count 0 occurs
  nowhere in it.
\<close>

theorem supplied_zero_count_counterexample:
  "map_of zero_count_request (str ''questionCount'') = Some (JInt 0) \<and>
   posted (snd (generate_paper (keyed_env JNull) (JObj zero_count_request) fresh_world)) =
     [gemini_payload
        (prompt_intro @ str ''Sample Exam'' @ prompt_rules_1_2 @ prompt_rule_3 @ prompt_rules_4_8)
        paper_schema] \<and>
   \<not> is_substring (str ''Generate exactly 0 questions'')
       (prompt_intro @ str ''Sample Exam'' @ prompt_rules_1_2 @ prompt_rule_3 @ prompt_rules_4_8)"
proof -
  have k: "API_KEY (keyed_env JNull) \<noteq> []" "API_KEY (keyed_env JNull) \<noteq> str ''YOUR_API_KEY_HERE''"
    by (simp_all add: keyed_env_def str_def)
  have m: "map_of zero_count_request (str ''questionCount'') = Some (JInt 0)"
    by (simp add: zero_count_request_def str_def)
  have p: "posted (snd (generate_paper (keyed_env JNull) (JObj zero_count_request) fresh_world)) =
     [gemini_payload
        (prompt_intro @ str ''Sample Exam'' @ prompt_rules_1_2 @ prompt_rule_3 @ prompt_rules_4_8)
        paper_schema]"
    using generate_paper_posts [OF k, of zero_count_request fresh_world] zero_count_prompt
    by (simp add: zero_count_request_def fresh_world_def keyed_env_def str_def)
  have "48 \<notin> set (prompt_intro @ str ''Sample Exam'' @ prompt_rules_1_2 @ prompt_rule_3 @
                  prompt_rules_4_8)"
    using no_zero_intro no_zero_rules_1_2 no_zero_rule_3 no_zero_rules_4_8
    by (simp add: str_def)
  moreover have "48 \<in> set (str ''Generate exactly 0 questions'')"
    by (simp add: str_def)
  ultimately have "\<not> is_substring (str ''Generate exactly 0 questions'')
       (prompt_intro @ str ''Sample Exam'' @ prompt_rules_1_2 @ prompt_rule_3 @ prompt_rules_4_8)"
    using is_substring_set by blast
  with m p show ?thesis by simp
qed

theorem overrides_in_posted_prompt_witness:
  "API_KEY (keyed_env JNull) \<noteq> [] \<and>
   API_KEY (keyed_env JNull) \<noteq> str ''YOUR_API_KEY_HERE'' \<and>
   map_of override_request (str ''questionCount'') = Some (JInt 2) \<and>
   truthy (JInt 2) \<and>
   map_of override_request (str ''duration'') = Some (JInt 45) \<and>
   truthy (JInt 45) \<and>
   (\<exists>prompt.
      posted (snd (generate_paper (keyed_env JNull) (JObj override_request) fresh_world)) =
        [gemini_payload prompt paper_schema] \<and>
      is_substring (str ''2a. Override: Generate exactly 2 questions, regardless of the official pattern.'')
        prompt \<and>
      is_substring (str ''3a. Override: Set the test duration to exactly 45 minutes.'') prompt)"
proof -
  have k: "API_KEY (keyed_env JNull) \<noteq> []" "API_KEY (keyed_env JNull) \<noteq> str ''YOUR_API_KEY_HERE''"
    by (simp_all add: keyed_env_def str_def)
  have c: "map_of override_request (str ''questionCount'') = Some (JInt 2)"
    and d: "map_of override_request (str ''duration'') = Some (JInt 45)"
    by (simp_all add: override_request_def str_def)
  from overrides_in_posted_prompt [OF k, of override_request fresh_world]
  obtain prompt where p:
    "posted (snd (generate_paper (keyed_env JNull) (JObj override_request) fresh_world)) =
       posted fresh_world @ [gemini_payload prompt paper_schema]"
    "\<forall>n. map_of override_request (str ''questionCount'') = Some n \<and> truthy n \<longrightarrow>
         is_substring
           (str ''2a. Override: Generate exactly '' @ py_str (py_repr (keyed_env JNull)) n @
            str '' questions, regardless of the official pattern.'') prompt"
    "\<forall>m. map_of override_request (str ''duration'') = Some m \<and> truthy m \<longrightarrow>
         is_substring
           (str ''3a. Override: Set the test duration to exactly '' @
            py_str (py_repr (keyed_env JNull)) m @ str '' minutes.'') prompt"
    by blast
  from p(2) c have "is_substring
           (str ''2a. Override: Generate exactly '' @ py_str (py_repr (keyed_env JNull)) (JInt 2) @
            str '' questions, regardless of the official pattern.'') prompt"
    by simp
  then have a: "is_substring
      (str ''2a. Override: Generate exactly 2 questions, regardless of the official pattern.'') prompt"
    by (simp add: dec_int_def dec_nat.simps str_def)
  from p(3) d have "is_substring
           (str ''3a. Override: Set the test duration to exactly '' @
            py_str (py_repr (keyed_env JNull)) (JInt 45) @ str '' minutes.'') prompt"
    by simp
  then have b: "is_substring (str ''3a. Override: Set the test duration to exactly 45 minutes.'') prompt"
    by (simp add: dec_int_def dec_nat.simps str_def)
  from p(1) have "posted (snd (generate_paper (keyed_env JNull) (JObj override_request) fresh_world)) =
       [gemini_payload prompt paper_schema]"
    by (simp add: fresh_world_def)
  with k c d a b show ?thesis by auto
qed

subsection \<open>The validation of the parsed response\<close>

lemma generate_paper_validates:
  assumes "call_gemini_api env
             (gemini_payload
                (paper_prompt (py_repr env)
                   (case map_of d (str ''examName'') of None \<Rightarrow> JStr [] | Some v \<Rightarrow> v)
                   (case map_of d (str ''duration'') of None \<Rightarrow> JNull | Some v \<Rightarrow> v)
                   (case map_of d (str ''questionCount'') of None \<Rightarrow> JNull | Some v \<Rightarrow> v))
                paper_schema) w = (Inr result, w')"
  shows "generate_paper env (JObj d) w = (validate_paper (py_repr env) result, w')"
  using assms by (simp add: generate_paper_def)

text \<open>
  C10. A parsed response that is an object without a \<^verbatim>\<open>questions\<close> key, or whose \<^verbatim>\<open>questions\<close>
  is the empty array, is returned as it is: no error, and no \<^verbatim>\<open>warnings\<close> field is added.
\<close>

theorem no_questions_returned_unchanged:
  assumes "map_of d (str ''questions'') = None \<or> map_of d (str ''questions'') = Some (JArr [])"
  shows "validate_paper repr (JObj d) = Inr (JObj d) \<and>
         http_status (validate_paper repr (JObj d)) = 200"
  using assms by (auto simp: validate_paper_def)

theorem no_questions_returned_unchanged_witness:
  "map_of [(str ''title'', JStr (str ''Sample Exam Mock Test'')), (str ''duration'', JInt 60)]
     (str ''questions'') = None \<and>
   validate_paper no_repr
     (JObj [(str ''title'', JStr (str ''Sample Exam Mock Test'')), (str ''duration'', JInt 60)]) =
     Inr (JObj [(str ''title'', JStr (str ''Sample Exam Mock Test'')), (str ''duration'', JInt 60)]) \<and>
   map_of (paper []) (str ''questions'') = Some (JArr []) \<and>
   validate_paper no_repr (JObj (paper [])) = Inr (JObj (paper []))"
proof -
  have a: "map_of [(str ''title'', JStr (str ''Sample Exam Mock Test'')), (str ''duration'', JInt 60)]
     (str ''questions'') = None"
    by (simp add: str_def)
  have b: "map_of (paper []) (str ''questions'') = Some (JArr [])"
    by (simp add: paper_def str_def)
  from no_questions_returned_unchanged [of _ no_repr, OF disjI1, OF a]
    no_questions_returned_unchanged [of _ no_repr, OF disjI2, OF b] a b
  show ?thesis by simp
qed

lemma dropWhile_Nil_all: "dropWhile P xs = [] \<longleftrightarrow> list_all P xs"
  by (induction xs) auto

lemma py_strip_empty: "py_strip s = [] \<longleftrightarrow> list_all is_space s"
proof
  assume "list_all is_space s"
  then have "dropWhile is_space s = []"
    by (simp only: dropWhile_Nil_all)
  then show "py_strip s = []"
    by (simp only: py_strip_def rev.simps dropWhile.simps)
next
  assume "py_strip s = []"
  then have "dropWhile is_space (rev (dropWhile is_space s)) = []"
    by (simp only: py_strip_def rev_is_Nil_conv)
  then have a: "list_all is_space (rev (dropWhile is_space s))"
    by (simp only: dropWhile_Nil_all)
  have "dropWhile is_space s = []"
  proof (cases "dropWhile is_space s")
    case Nil
    then show ?thesis .
  next
    case (Cons c cs)
    then have "\<not> is_space c"
      using hd_dropWhile [of is_space s] by simp
    with a Cons show ?thesis by simp
  qed
  then show "list_all is_space s"
    by (simp only: dropWhile_Nil_all)
qed

text \<open>The check takes a question's text for missing when the key is absent, or the
  value is a string of whitespace only (the empty string among them).\<close>

lemma text_missing_absent_or_blank:
  assumes "map_of f (str ''questionText'') = None \<or>
           (\<exists>s. map_of f (str ''questionText'') = Some (JStr s) \<and> list_all is_space s)"
  shows "text_missing (JObj f) = Inr True"
  using assms by (auto simp: text_missing_def py_strip_empty)

lemma question_ok_step:
  assumes "question_ok q"
  shows "text_missing q = Inr False"
    and "py_get q (str ''options'') (JArr []) = Inr (JArr (options_of q))"
    and "py_get q (str ''correctOptionIndex'') JNull = Inr (index_of q)"
    and "index_out_of_range (JArr (options_of q)) (index_of q) = Inr (index_flagged q)"
    and "answer_heuristic (JArr (options_of q)) (index_of q) = Inr ()"
proof -
  from assms obtain d where q: "q = JObj d"
    by (cases q) (simp_all add: question_ok_def)
  from assms q obtain s where s: "map_of d (str ''questionText'') = Some (JStr s)" "py_strip s \<noteq> []"
    by (auto simp: question_ok_def split: option.splits json.splits)
  from s have "s \<noteq> []"
    by (auto simp: py_strip_def)
  with s q show "text_missing q = Inr False"
    by (simp add: text_missing_def)
  from assms q show "py_get q (str ''options'') (JArr []) = Inr (JArr (options_of q))"
    by (auto simp: question_ok_def options_of_def split: option.splits json.splits)
  from q show "py_get q (str ''correctOptionIndex'') JNull = Inr (index_of q)"
    by (simp add: index_of_def)
  have nb: "index_of q \<noteq> JBool b" for b
    using assms q by (auto simp: question_ok_def index_of_def split: option.splits json.splits)
  show "index_out_of_range (JArr (options_of q)) (index_of q) = Inr (index_flagged q)"
    using nb by (cases "index_of q") (auto simp: index_out_of_range_def index_flagged_def)
  have strs: "list_all is_string (options_of q)"
    using assms q by (auto simp: question_ok_def options_of_def split: option.splits json.splits)
  show "answer_heuristic (JArr (options_of q)) (index_of q) = Inr ()"
  proof (cases "int_value (index_of q)")
    case None
    then show ?thesis
      by (simp add: answer_heuristic_def)
  next
    case (Some i)
    show ?thesis
    proof (cases "0 \<le> i \<and> i < int (length (options_of q))")
      case True
      then have "seq_index (options_of q) i = Some (options_of q ! nat i)"
        by (simp add: seq_index_def)
      moreover have "nat i < length (options_of q)"
        using True by linarith
      then have "is_string (options_of q ! nat i)"
        using strs by (simp add: list_all_length)
      then obtain t where "options_of q ! nat i = JStr t"
        by (cases "options_of q ! nat i") simp_all
      ultimately show ?thesis
        using Some True by (simp add: answer_heuristic_def)
    next
      case False
      with Some show ?thesis
        by (auto simp: answer_heuristic_def)
    qed
  qed
qed

lemma warnings_from_Cons:
  "warnings_from repr n (q # qs) =
     (if index_flagged q then [warning_text repr n (index_of q)] else []) @
     warnings_from repr (Suc n) qs"
proof -
  have "[n..<n + length (q # qs)] = n # [Suc n..<Suc n + length qs]"
    by (subst upt_rec) simp
  then show ?thesis
    by (simp add: warnings_from_def warning_text_def)
qed

lemma scan_questions_ok:
  "list_all question_ok qs \<Longrightarrow>
   scan_questions repr n qs acc = Inr (Warnings (acc @ warnings_from repr n qs))"
proof (induction qs arbitrary: n acc)
  case Nil
  then show ?case
    by (simp add: warnings_from_def)
next
  case (Cons q qs)
  then have q: "question_ok q" and qs: "list_all question_ok qs"
    by simp_all
  show ?case
    using question_ok_step [OF q] Cons.IH [OF qs]
    by (simp add: warnings_from_Cons)
qed

lemma length_warnings_from:
  "length (warnings_from repr n qs) = length (filter index_flagged qs)"
proof (induction qs arbitrary: n)
  case Nil
  then show ?case
    by (simp add: warnings_from_def)
next
  case (Cons q qs)
  then show ?case
    by (simp add: warnings_from_Cons)
qed

lemma scan_questions_missing:
  "list_all question_ok pre \<Longrightarrow> text_missing q = Inr True \<Longrightarrow>
   scan_questions repr n (pre @ q # post) acc = Inr MissingText"
proof (induction pre arbitrary: n acc)
  case Nil
  then show ?case by simp
next
  case (Cons p pre)
  then have p: "question_ok p" and pre: "list_all question_ok pre"
    by simp_all
  show ?case
    using question_ok_step [OF p] Cons.IH [OF pre Cons.prems(2)]
    by simp
qed

text \<open>
  What holds of C2: when every question before the first one whose text is missing is
  an object with a non-blank string as text and, if it has options, a list of strings,
  the whole response is answered by the error object, which carries the response as it
  was parsed; whatever warnings the earlier questions were due are dropped.
\<close>

lemma missing_text_aborts:
  assumes "map_of d (str ''questions'') = Some (JArr (pre @ q # post))"
    and "list_all question_ok pre" and "text_missing q = Inr True"
  shows "validate_paper repr (JObj d) =
           Inr (JObj [(str ''error'',
                       JStr (str ''AI response missing questionText in one or more questions.'')),
                      (str ''raw_response'', JObj d)])"
  using assms(1) scan_questions_missing [OF assms(2,3), of repr 0 post "[]"]
  by (simp add: validate_paper_def)

text \<open>
  C2. The claim does not hold of the code for every response: a question before the one
  without text can make the loop raise. Here the first question has numbers as options
  and an index in range, so the heuristic block calls \<^verbatim>\<open>split\<close> on the number 4 and raises
  \<open>AttributeError\<close> (status 500) before the second question, whose text is empty, is looked
  at.
\<close>

theorem numeric_options_raise_before_missing_text:
  "text_missing (numeric_options_questions ! 1) = Inr True \<and>
   validate_paper no_repr (JObj (paper numeric_options_questions)) = Inl AttributeError \<and>
   http_status (validate_paper no_repr (JObj (paper numeric_options_questions))) = 500"
  by (simp add: validate_paper_def paper_def numeric_options_questions_def question_def
      four_options_def text_missing_def index_out_of_range_def answer_heuristic_def
      py_strip_def is_space_def seq_index_def str_def)

text \<open>
  C3 (as amended). For a parsed response whose \<^verbatim>\<open>questions\<close> is a list of objects, each
  with a \<^verbatim>\<open>questionText\<close> that is a string with a character other than whitespace, with
  \<^verbatim>\<open>options\<close> (if present) a list of strings, and with a \<^verbatim>\<open>correctOptionIndex\<close> (if present)
  that is not a boolean: every question whose \<^verbatim>\<open>correctOptionIndex\<close> is not an integer or
  lies outside \<open>[0, len(options) - 1]\<close> gets exactly one warning, naming its position
  counted from 1 and the value; the warnings are in the order of the questions; if there
  is none, the response is returned as it is, and otherwise with the list of warnings
  under \<^verbatim>\<open>warnings\<close>.
\<close>

theorem warnings_for_flagged_indices:
  assumes "map_of d (str ''questions'') = Some (JArr qs)"
    and "list_all question_ok qs"
  shows "validate_paper repr (JObj d) =
           Inr (if filter index_flagged qs = [] then JObj d
                else JObj (dict_set d (str ''warnings'')
                             (JArr (map JStr (warnings_from repr 0 qs))))) \<and>
         length (warnings_from repr 0 qs) = length (filter index_flagged qs)"
proof -
  have e: "warnings_from repr 0 qs = [] \<longleftrightarrow> filter index_flagged qs = []"
    using length_warnings_from [of repr 0 qs] by (metis length_0_conv)
  show ?thesis
    using assms scan_questions_ok [OF assms(2), of repr 0 "[]"] e
    by (simp add: validate_paper_def length_warnings_from)
qed

lemma sample_questions_ok: "list_all question_ok sample_questions"
  by (simp add: sample_questions_def question_def four_options_def question_ok_def
      py_strip_def is_space_def str_def)

lemma sample_questions_warnings:
  "warnings_from no_repr 0 sample_questions =
     [str ''Question 2: correctOptionIndex 5 is out of range.'',
      str ''Question 3: correctOptionIndex 2.0 is out of range.'']"
  by (simp add: warnings_from_def sample_questions_def question_def four_options_def
      index_flagged_def index_of_def options_of_def dec_int_def dec_nat.simps upt_rec str_def)

theorem warnings_for_flagged_indices_witness:
  "map_of (paper sample_questions) (str ''questions'') = Some (JArr sample_questions) \<and>
   list_all question_ok sample_questions \<and>
   validate_paper no_repr (JObj (paper sample_questions)) =
     Inr (JObj (paper sample_questions @
            [(str ''warnings'',
              JArr [JStr (str ''Question 2: correctOptionIndex 5 is out of range.''),
                    JStr (str ''Question 3: correctOptionIndex 2.0 is out of range.'')])]))"
proof -
  have m: "map_of (paper sample_questions) (str ''questions'') = Some (JArr sample_questions)"
    by (simp add: paper_def str_def)
  have f: "filter index_flagged sample_questions \<noteq> []"
    using length_warnings_from [of no_repr 0 sample_questions] sample_questions_warnings
    by auto
  have s: "dict_set (paper sample_questions) (str ''warnings'') v =
           paper sample_questions @ [(str ''warnings'', v)]" for v
    by (simp add: paper_def str_def)
  from warnings_for_flagged_indices [OF m sample_questions_ok, of no_repr] f
  have "validate_paper no_repr (JObj (paper sample_questions)) =
        Inr (JObj (dict_set (paper sample_questions) (str ''warnings'')
                     (JArr (map JStr (warnings_from no_repr 0 sample_questions)))))"
    by simp
  with m sample_questions_ok show ?thesis
    by (simp add: sample_questions_warnings s)
qed

text \<open>
  The claim as stated fails for a text that is not empty but blank: the question's text
  is one space and its index 5 is out of range, yet no warning is attached: the answer
  is the error object.
\<close>

theorem blank_text_counterexample:
  "blank_text_questions = [question (str '' '') four_options (JInt 5)] \<and>
   str '' '' \<noteq> [] \<and>
   index_flagged (question (str '' '') four_options (JInt 5)) \<and>
   validate_paper no_repr (JObj (paper blank_text_questions)) =
     Inr (JObj [(str ''error'',
                 JStr (str ''AI response missing questionText in one or more questions.'')),
                (str ''raw_response'', JObj (paper blank_text_questions))])"
  by (simp add: validate_paper_def paper_def blank_text_questions_def question_def
      four_options_def text_missing_def index_flagged_def index_of_def options_of_def
      py_strip_def is_space_def str_def)

end
